theory Spec2Isabelle
  imports Main "HOL-Library.Multiset"
begin

section \<open>Strings and numbers of the host language\<close>

text \<open>
  A string is a list of bytes (UTF-8). The signs that open the messages of
  \<^verbatim>\<open>workflow.ts\<close> are kept as byte strings under a name each.
\<close>

definition sign_warning :: string where
  "sign_warning = [CHR 0xE2, CHR 0x9A, CHR 0xA0, CHR 0xEF, CHR 0xB8, CHR 0x8F]"

definition sign_check :: string where
  "sign_check = [CHR 0xE2, CHR 0x9C, CHR 0x93]"

definition sign_cross :: string where
  "sign_cross = [CHR 0xE2, CHR 0x9D, CHR 0x8C]"

definition sign_done :: string where
  "sign_done = [CHR 0xE2, CHR 0x9C, CHR 0x85]"

definition sign_info :: string where
  "sign_info = [CHR 0xE2, CHR 0x84, CHR 0xB9, CHR 0xEF, CHR 0xB8, CHR 0x8F]"

definition sign_arrow :: string where
  "sign_arrow = [CHR 0xE2, CHR 0x86, CHR 0x92]"



definition sign_chart :: string where
  "sign_chart = [CHR 0xF0, CHR 0x9F, CHR 0x93, CHR 0x8A]"

definition sign_broom :: string where
  "sign_broom = [CHR 0xF0, CHR 0x9F, CHR 0xA7, CHR 0xB9]"

definition sign_bin :: string where
  "sign_bin = [CHR 0xF0, CHR 0x9F, CHR 0x97, CHR 0x91, CHR 0xEF, CHR 0xB8, CHR 0x8F]"

text \<open>A number inside a template literal: its decimal digits.\<close>

definition digit_char :: "nat \<Rightarrow> char" where
  "digit_char d = char_of (48 + d)"

fun dec_nat :: "nat \<Rightarrow> string" where
  "dec_nat n = (if n < 10 then [digit_char n] else dec_nat (n div 10) @ [digit_char (n mod 10)])"

declare dec_nat.simps [simp del]

text \<open>
  \<^verbatim>\<open>String.prototype.includes\<close>: the argument occurs as a contiguous run.
\<close>

fun includes_str :: "string \<Rightarrow> string \<Rightarrow> bool" where
  "includes_str [] sub = (sub = [])"
| "includes_str (c # cs) sub = (take (length sub) (c # cs) = sub \<or> includes_str cs sub)"

text \<open>
  \<^verbatim>\<open>Array.prototype.findIndex\<close>: the index of the first element that satisfies
  the predicate, and \<open>-1\<close> when there is none.
\<close>

fun findIndex :: "('a \<Rightarrow> bool) \<Rightarrow> 'a list \<Rightarrow> int" where
  "findIndex P [] = - 1"
| "findIndex P (x # xs) =
     (if P x then 0 else (let r = findIndex P xs in if r = - 1 then - 1 else r + 1))"

text \<open>
  \<^verbatim>\<open>parseInt\<close> with one argument, on ASCII input: leading white space is skipped,
  one sign is read, a prefix \<^verbatim>\<open>0x\<close> selects radix 16, and the longest run of
  digits is the value; no digit gives \<^verbatim>\<open>NaN\<close>, here \<open>None\<close>. It returns for
  every string and never throws.
\<close>

definition is_space :: "char \<Rightarrow> bool" where
  "is_space c = (c = CHR 0x20 \<or> c = CHR 0x09 \<or> c = CHR 0x0A \<or> c = CHR 0x0B
     \<or> c = CHR 0x0C \<or> c = CHR 0x0D)"

definition digit_val :: "char \<Rightarrow> nat option" where
  "digit_val c =
     (let n = of_char c :: nat in
      if 48 \<le> n \<and> n \<le> 57 then Some (n - 48)
      else if 97 \<le> n \<and> n \<le> 122 then Some (n - 87)
      else if 65 \<le> n \<and> n \<le> 90 then Some (n - 55)
      else None)"

definition is_digit_in :: "nat \<Rightarrow> char \<Rightarrow> bool" where
  "is_digit_in radix c = (case digit_val c of None \<Rightarrow> False | Some d \<Rightarrow> d < radix)"

definition digits_value :: "nat \<Rightarrow> string \<Rightarrow> int" where
  "digits_value radix ds = foldl (\<lambda>acc c. acc * int radix + int (the (digit_val c))) 0 ds"

definition parse_digits :: "nat \<Rightarrow> string \<Rightarrow> int option" where
  "parse_digits radix s =
     (let ds = takeWhile (is_digit_in radix) s in
      if ds = [] then None else Some (digits_value radix ds))"

definition parse_unsigned :: "string \<Rightarrow> int option" where
  "parse_unsigned s =
     (if take 2 s = ''0x'' \<or> take 2 s = ''0X'' then parse_digits 16 (drop 2 s)
      else parse_digits 10 s)"

definition parseInt :: "string \<Rightarrow> int option" where
  "parseInt str =
     (let s = dropWhile is_space str in
      case s of
        [] \<Rightarrow> None
      | c # cs \<Rightarrow>
          if c = CHR ''-'' then map_option uminus (parse_unsigned cs)
          else if c = CHR ''+'' then parse_unsigned cs
          else parse_unsigned s)"

section \<open>Paths\<close>

text \<open>
  The functions of Node's \<^verbatim>\<open>path\<close> module that the processor calls, in their POSIX
  form: the separator is the slash.
\<close>

definition is_slash :: "char \<Rightarrow> bool" where
  "is_slash c = (c = CHR ''/'')"

definition strip_trailing_slashes :: "string \<Rightarrow> string" where
  "strip_trailing_slashes p = rev (dropWhile is_slash (rev p))"

text \<open>\<^verbatim>\<open>path.basename\<close>: the last component, trailing slashes ignored.\<close>

definition basename :: "string \<Rightarrow> string" where
  "basename p = rev (takeWhile (\<lambda>c. \<not> is_slash c) (rev (strip_trailing_slashes p)))"

text \<open>
  \<^verbatim>\<open>path.extname\<close>: from the last dot of the last component to its end; empty
  when the component has no dot, starts with its only dot, or is \<^verbatim>\<open>..\<close>.
\<close>

definition ext_of :: "string \<Rightarrow> string" where
  "ext_of b =
     (let suf = rev (takeWhile (\<lambda>c. c \<noteq> CHR ''.'') (rev b)) in
      if length b = Suc (length suf) \<or> b = ''..'' \<or> CHR ''.'' \<notin> set b then []
      else CHR ''.'' # suf)"

definition extname :: "string \<Rightarrow> string" where
  "extname p = ext_of (basename p)"

text \<open>The components of a path: the runs between slashes, empty ones included.\<close>

fun split_slash :: "string \<Rightarrow> string list" where
  "split_slash [] = [[]]"
| "split_slash (c # cs) =
     (if is_slash c then [] # split_slash cs
      else (case split_slash cs of
              [] \<Rightarrow> [[c]]
            | s # ss \<Rightarrow> (c # s) # ss))"

fun join_slash :: "string list \<Rightarrow> string" where
  "join_slash [] = []"
| "join_slash [s] = s"
| "join_slash (s # t # ss) = s @ ''/'' @ join_slash (t # ss)"

text \<open>
  One step of Node's \<^verbatim>\<open>normalizeString\<close>, on the components kept so far: an empty
  component and \<^verbatim>\<open>.\<close> are dropped, \<^verbatim>\<open>..\<close> removes the component before it, or
  is kept when there is none to remove and the path is relative.
\<close>

definition normalize_step :: "bool \<Rightarrow> string list \<Rightarrow> string \<Rightarrow> string list" where
  "normalize_step allowAboveRoot res seg =
     (if seg = [] \<or> seg = ''.'' then res
      else if seg = ''..'' then
        (if res \<noteq> [] \<and> last res \<noteq> ''..'' then butlast res
         else if allowAboveRoot then res @ [seg]
         else res)
      else res @ [seg])"

definition normalizeString :: "string \<Rightarrow> bool \<Rightarrow> string" where
  "normalizeString p allowAboveRoot =
     join_slash (foldl (normalize_step allowAboveRoot) [] (split_slash p))"

definition normalize :: "string \<Rightarrow> string" where
  "normalize p =
     (if p = [] then ''.''
      else
        let isAbsolute = is_slash (hd p);
            trailingSeparator = is_slash (last p);
            q = normalizeString p (\<not> isAbsolute)
        in if q = [] then
             (if isAbsolute then ''/'' else if trailingSeparator then ''./'' else ''.'')
           else
             let q' = (if trailingSeparator then q @ ''/'' else q)
             in if isAbsolute then ''/'' @ q' else q')"

text \<open>\<^verbatim>\<open>path.join\<close>: the non-empty arguments joined by slashes, then normalized.\<close>

definition path_join :: "string list \<Rightarrow> string" where
  "path_join args =
     (let parts = filter (\<lambda>a. a \<noteq> []) args in
      if parts = [] then ''.'' else normalize (join_slash parts))"

text \<open>
  \<^verbatim>\<open>path.resolve\<close>: the arguments are taken from the right until one is absolute,
  the working directory last. The first argument is the working directory.
\<close>

fun resolve_from_right :: "string list \<Rightarrow> string \<Rightarrow> string \<times> bool" where
  "resolve_from_right [] resolvedPath = (resolvedPath, False)"
| "resolve_from_right (a # as) resolvedPath =
     (if a = [] then resolve_from_right as resolvedPath
      else if is_slash (hd a) then (a @ ''/'' @ resolvedPath, True)
      else resolve_from_right as (a @ ''/'' @ resolvedPath))"

definition path_resolve :: "string \<Rightarrow> string list \<Rightarrow> string" where
  "path_resolve cwd args =
     (let (resolvedPath, resolvedAbsolute) = resolve_from_right (rev (cwd # args)) [];
          q = normalizeString resolvedPath (\<not> resolvedAbsolute)
      in if resolvedAbsolute then ''/'' @ q
         else if q \<noteq> [] then q else ''.'')"

section \<open>The processor's data\<close>

subsection \<open>extractCode\<close>

text \<open>
  \<^verbatim>\<open>imagePath.replace(/\.[^/.]+$/, "")\<close>: the leftmost dot that is followed, up to
  the end of the string, by one or more characters that are neither a slash nor a
  dot, is removed together with what follows it.
\<close>

fun replace_ext :: "string \<Rightarrow> string" where
  "replace_ext [] = []"
| "replace_ext (c # cs) =
     (if c = CHR ''.'' \<and> cs \<noteq> [] \<and> list_all (\<lambda>d. d \<noteq> CHR ''/'' \<and> d \<noteq> CHR ''.'') cs
      then []
      else c # replace_ext cs)"

text \<open>
  A call inside \<^verbatim>\<open>try\<close>: it completes with a value or throws. The message of
  the thrown value is optional.
\<close>

datatype thrown = Thrown (message: "string option")

datatype 'a completion = Returned 'a | Threw thrown

definition call_parseInt :: "string \<Rightarrow> int option completion" where
  "call_parseInt s = Returned (parseInt s)"

definition extractCode :: "string \<Rightarrow> string option" where
  "extractCode imagePath =
     (let code = replace_ext imagePath in
      case call_parseInt code of
        Threw error \<Rightarrow> None
      | Returned n \<Rightarrow> Some code)"

text \<open>
  The words of the specification: a non-negative integer string is a non-empty run of
  decimal digits.
\<close>

definition is_decimal_digit :: "char \<Rightarrow> bool" where
  "is_decimal_digit c = (48 \<le> (of_char c :: nat) \<and> (of_char c :: nat) \<le> 57)"

definition isIntegerString :: "string \<Rightarrow> bool" where
  "isIntegerString s = (s \<noteq> [] \<and> list_all is_decimal_digit s)"


subsection \<open>Records of workflow.ts\<close>

datatype error_class =
  Error | ImageProcessingError | FailedUploadError | ImageValidationError | ImageBankMatchError

datatype js_error = JsError (error_class: error_class) (error_message: string)

record ImageInfo =
  path :: string
  name :: string
  code :: "string option"
  extension :: string
  size_i :: int
  sizeFormatted :: string
  type :: string
  isSupported :: bool
  created :: int
  modified :: int
  isValidSize :: bool

record R2Config =
  accessKeyId :: string
  secretAccessKey :: string
  accountId :: string
  bucketName :: string
  publicDomain :: string

record ProcessorOptions =
  opt_supportedFormats :: "string list option"
  opt_maxFileSize :: "int option"
  opt_minFileSize :: "int option"
  opt_banksFilePath :: "string option"
  opt_r2Config :: "R2Config option"
  opt_isCI :: bool

record Skipped =
  skipped_name :: string
  reason :: string

record ImageProcessReport =
  skipped :: "Skipped list"
  failed_upload :: "string list"
  completed :: "string list"

record ProcessResult =
  processed :: nat
  results :: "ImageInfo list"
  total :: nat
  imageProcessReport :: ImageProcessReport

text \<open>
  Modelled from the spec: the type \<^verbatim>\<open>Bank\<close> is used by workflow.ts and declared
  outside the given sources. The specification's institution record has the fields
  code, nipCode, name and an optional icon; the code reads them as \<^verbatim>\<open>code\<close>,
  \<^verbatim>\<open>nipBankCode\<close>, \<^verbatim>\<open>name\<close> and \<^verbatim>\<open>icon\<close>.
\<close>

record Bank =
  bank_code :: string
  nipBankCode :: string
  bank_name :: string
  icon :: "string option"

record S3Client =
  region :: string
  endpoint :: string
  credentials_accessKeyId :: string
  credentials_secretAccessKey :: string

record PutObjectParams =
  Bucket :: string
  Key :: string
  Body :: string
  ContentType :: string
  CacheControl :: string

record ImageProcessor =
  supportedFormats :: "string list"
  maxFileSize :: int
  minFileSize :: int
  mimeTypes :: "(string \<times> string) list"
  banksFilePath :: string
  banks :: "Bank list"
  r2Config :: "R2Config option"
  s3Client :: "S3Client option"
  isCI :: bool

subsection \<open>The world outside the processor\<close>

text \<open>
  Every call that leaves the process is an event, recorded in the order of the calls.
  \<open>WriteFile\<close> is \<^verbatim>\<open>fs.writeFile\<close>: its only call in workflow.ts stands inside a
  comment, so no function below records it.
\<close>

datatype io_event =
    ReadDir string
  | Stat string
  | ReadFile string
  | PutObject PutObjectParams
  | Unlink string
  | WriteFile string string

datatype console_method = console_log | console_info | console_warn | console_error

record world =
  effects :: "io_event list"
  console :: "(console_method \<times> string) list"

record Dirent =
  dirent_name :: string
  isFile :: bool

record Stats =
  stats_size :: int
  birthtime :: int
  mtime :: int

text \<open>
  What the outside answers. The answer to a call may depend on the events so far, its
  first argument. A file-system call answers with a value or throws; \<open>s3_send\<close> and
  \<open>fs_unlink\<close> resolve (\<open>None\<close>) or throw. \<open>toLowerCase\<close> is the host's
  \<^verbatim>\<open>String.prototype.toLowerCase\<close> and \<open>cwd\<close> the working directory.
  \<open>formatFileSize\<close> is the method of that name, which computes in floating point
  (\<^verbatim>\<open>Math.log\<close>, \<^verbatim>\<open>toFixed\<close>); its result is only ever printed.
\<close>

record env =
  cwd :: string
  toLowerCase :: "string \<Rightarrow> string"
  formatFileSize :: "int \<Rightarrow> string"
  fs_readdir :: "io_event list \<Rightarrow> string \<Rightarrow> thrown + Dirent list"
  fs_stat :: "io_event list \<Rightarrow> string \<Rightarrow> thrown + Stats"
  fs_readFile :: "io_event list \<Rightarrow> string \<Rightarrow> thrown + string"
  s3_send :: "io_event list \<Rightarrow> S3Client \<Rightarrow> PutObjectParams \<Rightarrow> thrown option"
  fs_unlink :: "io_event list \<Rightarrow> string \<Rightarrow> thrown option"

definition perform :: "io_event \<Rightarrow> world \<Rightarrow> world" where
  "perform ev w = w\<lparr>effects := effects w @ [ev]\<rparr>"

definition emit :: "console_method \<Rightarrow> string \<Rightarrow> world \<Rightarrow> world" where
  "emit m s w = w\<lparr>console := console w @ [(m, s)]\<rparr>"

text \<open>A value inside a template literal, and the truth value of an optional string.\<close>

definition text_of :: "string option \<Rightarrow> string" where
  "text_of v = (case v of None \<Rightarrow> ''undefined'' | Some s \<Rightarrow> s)"

definition text_of_nullable :: "string option \<Rightarrow> string" where
  "text_of_nullable v = (case v of None \<Rightarrow> ''null'' | Some s \<Rightarrow> s)"

definition truthy :: "string option \<Rightarrow> bool" where
  "truthy v = (case v of None \<Rightarrow> False | Some s \<Rightarrow> s \<noteq> [])"

definition newline :: string where
  "newline = [CHR 0x0A]"

section \<open>The image processor\<close>

text \<open>
  The class \<^verbatim>\<open>ImageProcessor\<close> of workflow.ts: its constructor, \<^verbatim>\<open>extractCode\<close>
  (above), \<^verbatim>\<open>getImageInfo\<close>, \<^verbatim>\<open>getAllImageFiles\<close>, \<^verbatim>\<open>processDirectory\<close>,
  \<^verbatim>\<open>uploadToR2\<close>, \<^verbatim>\<open>processImage\<close>, \<^verbatim>\<open>logImageInfo\<close> and \<^verbatim>\<open>cleanup\<close>. Each
  function takes the outside's answers, the processor and the world, and returns its
  result with what it changed. The summary report (\<^verbatim>\<open>generateReport\<close>,
  \<^verbatim>\<open>printReport\<close>) only reads the descriptors and is left out.
\<close>

definition defaultSupportedFormats :: "string list" where
  "defaultSupportedFormats = [''.jpg'', ''.jpeg'', ''.png'', ''.gif'', ''.svg'']"

definition default_mimeTypes :: "(string \<times> string) list" where
  "default_mimeTypes =
     [(''.jpg'', ''image/jpeg''), (''.jpeg'', ''image/jpeg''), (''.png'', ''image/png''),
      (''.gif'', ''image/gif''), (''.webp'', ''image/webp''), (''.svg'', ''image/svg+xml''),
      (''.bmp'', ''image/bmp''), (''.ico'', ''image/x-icon''), (''.tiff'', ''image/tiff''),
      (''.tif'', ''image/tiff'')]"

text \<open>
  The constructor, followed by a \<^verbatim>\<open>loadBanksData\<close> that succeeded: the parsed
  content of the banks file is the argument \<open>loaded\<close>. An option that is absent, zero
  or the empty string gives way to its default.
\<close>

definition new_S3Client :: "R2Config \<Rightarrow> S3Client" where
  "new_S3Client config =
     \<lparr>region = ''auto'',
      endpoint = ''https://'' @ accountId config @ ''.r2.cloudflarestorage.com'',
      credentials_accessKeyId = accessKeyId config,
      credentials_secretAccessKey = secretAccessKey config\<rparr>"

definition new_ImageProcessor :: "env \<Rightarrow> ProcessorOptions \<Rightarrow> Bank list \<Rightarrow> ImageProcessor" where
  "new_ImageProcessor E options loaded =
     \<lparr>supportedFormats =
        (case opt_supportedFormats options of None \<Rightarrow> defaultSupportedFormats | Some fs \<Rightarrow> fs),
      maxFileSize =
        (case opt_maxFileSize options of
           None \<Rightarrow> 100 * 1024
         | Some n \<Rightarrow> if n = 0 then 100 * 1024 else n),
      minFileSize =
        (case opt_minFileSize options of
           None \<Rightarrow> 1024
         | Some n \<Rightarrow> if n = 0 then 1024 else n),
      mimeTypes = default_mimeTypes,
      banksFilePath =
        (if truthy (opt_banksFilePath options) then the (opt_banksFilePath options)
         else path_resolve (cwd E) [''./_data/banks.json'']),
      banks = loaded,
      r2Config = opt_r2Config options,
      s3Client = map_option new_S3Client (opt_r2Config options),
      isCI = opt_isCI options\<rparr>"

definition getImageInfo ::
  "env \<Rightarrow> ImageProcessor \<Rightarrow> world \<Rightarrow> string \<Rightarrow> ImageInfo option \<times> world" where
  "getImageInfo E this w imagePath =
     (case fs_stat E (effects w) imagePath of
        Inl error \<Rightarrow>
          (None,
           emit console_error (''Error processing '' @ imagePath @ '': '' @ text_of (message error))
             (perform (Stat imagePath) w))
      | Inr stats \<Rightarrow>
          let ext = toLowerCase E (extname imagePath);
              base = basename imagePath;
              c = extractCode base
          in (Some
                \<lparr>path = imagePath,
                 name = base,
                 code = c,
                 extension = ext,
                 size_i = stats_size stats,
                 sizeFormatted = formatFileSize E (stats_size stats),
                 type = (case map_of (mimeTypes this) ext of
                           None \<Rightarrow> ''unknown''
                         | Some t \<Rightarrow> if t = [] then ''unknown'' else t),
                 isSupported = (ext \<in> set (supportedFormats this)),
                 created = birthtime stats,
                 modified = mtime stats,
                 isValidSize =
                   (stats_size stats \<ge> minFileSize this \<and> stats_size stats \<le> maxFileSize this)\<rparr>,
              perform (Stat imagePath) w))"

text \<open>The loop of \<^verbatim>\<open>getAllImageFiles\<close> over the directory's entries.\<close>

fun scan_entries ::
  "env \<Rightarrow> ImageProcessor \<Rightarrow> string \<Rightarrow> Dirent list \<Rightarrow> string list \<times> ImageProcessReport
     \<Rightarrow> string list \<times> ImageProcessReport" where
  "scan_entries E this directory [] acc = acc"
| "scan_entries E this directory (entry # entries) (imageFiles, report) =
     (if isFile entry then
        (let ext = toLowerCase E (extname (dirent_name entry)) in
         if ext \<in> set (supportedFormats this) then
           scan_entries E this directory entries
             (imageFiles @ [path_join [directory, dirent_name entry]], report)
         else
           scan_entries E this directory entries
             (imageFiles,
              report\<lparr>skipped := skipped report @
                [\<lparr>skipped_name = dirent_name entry,
                  reason = sign_warning @ ''  Unsupported format: '' @ ext\<rparr>]\<rparr>))
      else scan_entries E this directory entries (imageFiles, report))"

definition getAllImageFiles ::
  "env \<Rightarrow> ImageProcessor \<Rightarrow> world \<Rightarrow> string \<Rightarrow> ImageProcessReport
     \<Rightarrow> string list \<times> ImageProcessReport \<times> world" where
  "getAllImageFiles E this w directory report =
     (case fs_readdir E (effects w) directory of
        Inl error \<Rightarrow>
          ([], report,
           emit console_error
             (''Error reading directory '' @ directory @ '': '' @ text_of (message error))
             (perform (ReadDir directory) w))
      | Inr entries \<Rightarrow>
          (case scan_entries E this directory entries ([], report) of
             (imageFiles, report') \<Rightarrow> (imageFiles, report', perform (ReadDir directory) w)))"

definition logImageInfo :: "ImageInfo \<Rightarrow> world \<Rightarrow> world" where
  "logImageInfo info w =
     (let status = (if isSupported info \<and> isValidSize info then sign_check else sign_warning)
      in emit console_log
           (status @ '' '' @ name info @ '' | '' @ type info @ '' | '' @ sizeFormatted info) w)"

definition uploadToR2 ::
  "env \<Rightarrow> ImageProcessor \<Rightarrow> world \<Rightarrow> ImageInfo \<Rightarrow> (js_error + string) \<times> world" where
  "uploadToR2 E this w imageInfo =
     (if s3Client this = None \<or> r2Config this = None then
        (Inl (JsError Error ''R2 client not configured''),
         emit console_error ''R2 client not configured'' w)
      else
        let client = the (s3Client this);
            config = the (r2Config this);
            w1 = perform (ReadFile (path imageInfo)) w
        in (case fs_readFile E (effects w) (path imageInfo) of
             Inl error \<Rightarrow>
               (Inl (JsError Error (''Failed to upload image to R2: '' @
                  (case message error of None \<Rightarrow> ''Unknown error'' | Some m \<Rightarrow> m))), w1)
           | Inr fileBuffer \<Rightarrow>
               let fileName = text_of_nullable (code imageInfo);
                   key = ''logo/'' @ fileName;
                   uploadParams =
                     \<lparr>Bucket = bucketName config, Key = key, Body = fileBuffer,
                      ContentType = type imageInfo,
                      CacheControl = ''public, max-age=31536000''\<rparr>;
                   w2 = perform (PutObject uploadParams) w1
               in (case s3_send E (effects w1) client uploadParams of
                    Some error \<Rightarrow>
                      (Inl (JsError Error (''Failed to upload image to R2: '' @
                         (case message error of None \<Rightarrow> ''Unknown error'' | Some m \<Rightarrow> m))), w2)
                  | None \<Rightarrow>
                      let publicUrl = publicDomain config @ ''/'' @ key
                      in (Inr publicUrl,
                          emit console_log
                            (sign_check @ '' Uploaded: '' @ fileName @ '' '' @ sign_arrow @ '' '' @
                             publicUrl) w2))))"

text \<open>
  \<^verbatim>\<open>processImage\<close> returns a string, an error or, where it returns the icon of a
  record that has none, \<^verbatim>\<open>undefined\<close>. It writes the descriptor's code and, after
  an upload, the matched record's icon: the descriptor and the processor are returned
  with the result.
\<close>

definition processImage ::
  "env \<Rightarrow> ImageProcessor \<Rightarrow> world \<Rightarrow> ImageInfo
     \<Rightarrow> (js_error + string option) \<times> ImageInfo \<times> ImageProcessor \<times> world" where
  "processImage E this w info =
     (if \<not> isSupported info then
        (Inl (JsError ImageValidationError (sign_warning @ ''  Unsupported format: '' @ type info)),
         info, this,
         emit console_warn (sign_warning @ ''  Unsupported format: '' @ type info) w)
      else if \<not> truthy (code info) then
        (Inl (JsError ImageBankMatchError (sign_warning @ ''  No code found: '' @ name info)),
         info, this,
         emit console_warn (sign_warning @ ''  No code found: '' @ name info) w)
      else if \<not> isValidSize info then
        (Inl (JsError ImageValidationError
           (sign_warning @ ''  Invalid size: '' @ name info @ '' ('' @ sizeFormatted info @ '')'')),
         info, this,
         (if size_i info > maxFileSize this then
            emit console_warn
              (sign_warning @ ''  File too large: '' @ name info @ '' ('' @ sizeFormatted info @ '')'') w
          else
            emit console_warn
              (sign_warning @ ''  File too small: '' @ name info @ '' ('' @ sizeFormatted info @ '')'') w))
      else
        let bankIndex =
              findIndex (\<lambda>bank. Some (bank_code bank) = code info \<or> Some (nipBankCode bank) = code info)
                (banks this)
        in if bankIndex = - 1 then
             (Inl (JsError ImageBankMatchError (sign_warning @ ''  No bank found: '' @ name info)),
              info, this,
              emit console_warn (sign_warning @ ''  No bank found: '' @ name info) w)
           else
             let bankMatch = banks this ! nat bankIndex;
                 info' = info\<lparr>code := Some (nipBankCode bankMatch)\<rparr>
             in if truthy (icon bankMatch) \<and> \<not> includes_str (the (icon bankMatch)) ''default-image'' then
                  (Inr (icon bankMatch), info', this,
                   emit console_info
                     (sign_info @ ''  '' @ bank_name bankMatch @ '' already has an icon'') w)
                else if isCI this then
                  (Inr (icon bankMatch), info', this, w)
                else
                  (case uploadToR2 E this w info' of
                     (Inl imageUrl, w1) \<Rightarrow>
                       (Inl (JsError FailedUploadError (error_message imageUrl)), info', this,
                        emit console_error (error_message imageUrl) w1)
                   | (Inr imageUrl, w1) \<Rightarrow>
                       (Inr (Some imageUrl), info',
                        this\<lparr>banks := (banks this)
                          [nat bankIndex := (banks this ! nat bankIndex)\<lparr>icon := Some imageUrl\<rparr>]\<rparr>,
                        w1)))"

text \<open>
  The body of the loop of \<^verbatim>\<open>processDirectory\<close>, for one scanned path, and the loop.
  The state of the loop is the list \<^verbatim>\<open>results\<close>, the counter \<^verbatim>\<open>processed\<close>, the
  report, the processor and the world. The descriptor pushed to \<^verbatim>\<open>results\<close> is the
  object that \<^verbatim>\<open>processImage\<close> then writes to, so the list holds the descriptor as
  that call leaves it.
\<close>

definition process_file ::
  "env \<Rightarrow> bool \<Rightarrow> string
     \<Rightarrow> ImageInfo list \<times> nat \<times> ImageProcessReport \<times> ImageProcessor \<times> world
     \<Rightarrow> ImageInfo list \<times> nat \<times> ImageProcessReport \<times> ImageProcessor \<times> world" where
  "process_file E verbose imagePath acc =
     (case acc of (res, n, report, this, w) \<Rightarrow>
        (case getImageInfo E this w imagePath of
           (None, w1) \<Rightarrow> (res, n, report, this, w1)
         | (Some info, w1) \<Rightarrow>
             (let w2 = (if verbose then logImageInfo info w1 else w1) in
              case processImage E this w2 info of
                (Inl imageResult, info', this', w3) \<Rightarrow>
                  if error_class imageResult = ImageValidationError then
                    (res @ [info'], n,
                     report\<lparr>skipped := skipped report @
                       [\<lparr>skipped_name = name info', reason = error_message imageResult\<rparr>]\<rparr>,
                     this', w3)
                  else if error_class imageResult = FailedUploadError then
                    (res @ [info'], n,
                     report\<lparr>failed_upload := failed_upload report @ [name info']\<rparr>,
                     this', w3)
                  else if error_class imageResult = ImageBankMatchError then
                    (res @ [info'], n,
                     report\<lparr>skipped := skipped report @
                       [\<lparr>skipped_name = name info', reason = error_message imageResult\<rparr>]\<rparr>,
                     this', w3)
                  else
                    (res @ [info'], n,
                     report\<lparr>skipped := skipped report @
                       [\<lparr>skipped_name = name info', reason = error_message imageResult\<rparr>]\<rparr>,
                     this', w3)
              | (Inr imageResult, info', this', w3) \<Rightarrow>
                  (res @ [info'], n + 1,
                   report\<lparr>completed := completed report @ [name info']\<rparr>,
                   this', w3))))"

fun process_files ::
  "env \<Rightarrow> bool \<Rightarrow> string list
     \<Rightarrow> ImageInfo list \<times> nat \<times> ImageProcessReport \<times> ImageProcessor \<times> world
     \<Rightarrow> ImageInfo list \<times> nat \<times> ImageProcessReport \<times> ImageProcessor \<times> world" where
  "process_files E verbose [] acc = acc"
| "process_files E verbose (imagePath # rest) acc =
     process_files E verbose rest (process_file E verbose imagePath acc)"


text \<open>The deletion loop of \<^verbatim>\<open>cleanup\<close>, with its two counters.\<close>

fun delete_files ::
  "env \<Rightarrow> string \<Rightarrow> string list \<Rightarrow> nat \<times> nat \<times> world \<Rightarrow> nat \<times> nat \<times> world" where
  "delete_files E dirPath [] acc = acc"
| "delete_files E dirPath (imagePath # rest) (deletedCount, failedCount, w) =
     (let target = path_resolve (cwd E) [dirPath, imagePath];
          w1 = perform (Unlink target) w
      in case fs_unlink E (effects w) target of
           None \<Rightarrow>
             delete_files E dirPath rest
               (deletedCount + 1, failedCount,
                emit console_log (sign_check @ '' Deleted: '' @ basename imagePath) w1)
         | Some error \<Rightarrow>
             delete_files E dirPath rest
               (deletedCount, failedCount + 1,
                emit console_error
                  (sign_cross @ '' Failed to delete '' @ basename imagePath @ '': '' @
                   text_of (message error)) w1))"

text \<open>
  \<^verbatim>\<open>cleanup\<close>. The list \<open>updatedBanks\<close> is built and counted; the call that would
  write it to the banks file is commented out in the source, so the list goes nowhere.
\<close>

definition updatedBanks_of :: "ImageProcessor \<Rightarrow> Bank list" where
  "updatedBanks_of this =
     map (\<lambda>bank. bank\<lparr>icon :=
            (if truthy (icon bank) then icon bank
             else Some (text_of (map_option publicDomain (r2Config this)) @ ''/logo/default-image''))\<rparr>)
       (banks this)"

definition cleanup ::
  "env \<Rightarrow> ImageProcessor \<Rightarrow> world \<Rightarrow> string list \<Rightarrow> js_error option \<times> world" where
  "cleanup E this w completedImages =
     (let w1 = emit console_log (newline @ sign_broom @ '' Starting cleanup...'') w;
          updatedBanks = updatedBanks_of this;
          w2 = emit console_log
                 (sign_check @ '' Updated '' @ banksFilePath this @ '' with '' @
                  dec_nat (length updatedBanks) @ '' banks'') w1
      in if length completedImages = 0 then
           (None, emit console_log (sign_info @ ''  No images to delete'') w2)
         else
           (let w3 = emit console_log
                  (sign_bin @ ''  Deleting '' @ dec_nat (length completedImages) @
                   '' processed images...'') w2;
                dirPath = path_resolve (cwd E) [''./_data/images'']
            in case delete_files E dirPath completedImages (0, 0, w3) of
                 (deletedCount, failedCount, w4) \<Rightarrow>
                   (let w5 = emit console_log (newline @ sign_chart @ '' Cleanup Summary:'') w4;
                        w6 = emit console_log
                               (''  '' @ sign_check @ '' Successfully deleted: '' @
                                dec_nat deletedCount @ '' files'') w5
                    in if failedCount > 0 then
                         (Some (JsError Error
                            (''Failed to delete '' @ dec_nat failedCount @ '' out of '' @
                             dec_nat (length completedImages) @ '' files'')), w6)
                       else
                         (None, emit console_log (sign_done @ '' Cleanup completed successfully'') w6))))"

section \<open>Words of the specification\<close>

text \<open>
  A registry record matches a descriptor when its code or its NIP code equals the
  descriptor's code; the first match in store order is the record at index \<open>k\<close> that
  matches while none before it does.
\<close>

definition code_matches :: "ImageInfo \<Rightarrow> Bank \<Rightarrow> bool" where
  "code_matches info bank =
     (Some (bank_code bank) = code info \<or> Some (nipBankCode bank) = code info)"

definition first_match :: "ImageInfo \<Rightarrow> Bank list \<Rightarrow> nat \<Rightarrow> bool" where
  "first_match info bs k =
     (k < length bs \<and> code_matches info (bs ! k) \<and> \<not> list_ex (code_matches info) (take k bs))"

section \<open>Concrete inputs\<close>

text \<open>
  A small world for the examples: a working directory, an ASCII \<^verbatim>\<open>toLowerCase\<close>, a
  directory with five entries, files of 2048 bytes, a store that accepts every upload
  and a file system that refuses to delete \<^verbatim>\<open>20.png\<close>.
\<close>

definition lower_ascii :: "string \<Rightarrow> string" where
  "lower_ascii s =
     map (\<lambda>c. let n = of_char c :: nat in if 65 \<le> n \<and> n \<le> 90 then char_of (n + 32) else c) s"

definition example_env :: env where
  "example_env =
     \<lparr>cwd = ''/repo'',
      toLowerCase = lower_ascii,
      formatFileSize = (\<lambda>n. dec_nat (nat n) @ '' B''),
      fs_readdir = (\<lambda>h d. Inr
        [\<lparr>dirent_name = ''10.JPG'', isFile = True\<rparr>,
         \<lparr>dirent_name = ''logo-a.png'', isFile = True\<rparr>,
         \<lparr>dirent_name = ''notes.txt'', isFile = True\<rparr>,
         \<lparr>dirent_name = ''old'', isFile = False\<rparr>,
         \<lparr>dirent_name = ''77.png'', isFile = True\<rparr>]),
      fs_stat = (\<lambda>h p. Inr \<lparr>stats_size = 2048, birthtime = 0, mtime = 0\<rparr>),
      fs_readFile = (\<lambda>h p. Inr ''bytes''),
      s3_send = (\<lambda>h c p. None),
      fs_unlink = (\<lambda>h p.
        if p = ''/repo/_data/images/20.png'' then Some (Thrown (Some ''EACCES'')) else None)\<rparr>"

definition example_banks :: "Bank list" where
  "example_banks =
     [\<lparr>bank_code = ''10'', nipBankCode = ''000010'', bank_name = ''Ten'',
       icon = Some ''https://cdn/logo/000010''\<rparr>,
      \<lparr>bank_code = ''77'', nipBankCode = ''000077'', bank_name = ''Seven'',
       icon = Some ''https://cdn/logo/default-image''\<rparr>,
      \<lparr>bank_code = ''077'', nipBankCode = ''77'', bank_name = ''Seven again'',
       icon = None\<rparr>]"

definition example_r2Config :: R2Config where
  "example_r2Config =
     \<lparr>accessKeyId = ''key'', secretAccessKey = ''secret'', accountId = ''acct'',
      bucketName = ''logos'', publicDomain = ''https://cdn''\<rparr>"

definition example_processor :: "int \<Rightarrow> int \<Rightarrow> R2Config option \<Rightarrow> bool \<Rightarrow> ImageProcessor" where
  "example_processor lo hi config ci =
     new_ImageProcessor example_env
       \<lparr>opt_supportedFormats = None, opt_maxFileSize = Some hi, opt_minFileSize = Some lo,
        opt_banksFilePath = None, opt_r2Config = config, opt_isCI = ci\<rparr>
       example_banks"

definition example_info :: "string \<Rightarrow> string option \<Rightarrow> ImageInfo" where
  "example_info base c =
     \<lparr>path = ''_data/images/'' @ base, name = base, code = c, extension = ''.png'',
      size_i = 2048, sizeFormatted = ''2048 B'', type = ''image/png'', isSupported = True,
      created = 0, modified = 0, isValidSize = True\<rparr>"

definition empty_world :: world where
  "empty_world = \<lparr>effects = [], console = []\<rparr>"

section \<open>Words for the clean-up\<close>

text \<open>
  The paths that \<^verbatim>\<open>cleanup\<close> asks the file system to delete, one for each completed
  image, and the number of them that the file system refuses, each one asked after
  the deletions before it.
\<close>

definition deletion_targets :: "env \<Rightarrow> string list \<Rightarrow> string list" where
  "deletion_targets E completedImages =
     map (\<lambda>imagePath. path_resolve (cwd E) [path_resolve (cwd E) [''./_data/images''], imagePath])
       completedImages"

fun unlink_failures :: "env \<Rightarrow> io_event list \<Rightarrow> string list \<Rightarrow> nat" where
  "unlink_failures E hist [] = 0"
| "unlink_failures E hist (t # ts) =
     (if fs_unlink E hist t = None then 0 else 1) + unlink_failures E (hist @ [Unlink t]) ts"

section \<open>Words for the directory scan\<close>

text \<open>
  The name of a directory entry, as \<^verbatim>\<open>fs.readdir\<close> gives it: not empty, without a
  slash, and neither \<^verbatim>\<open>.\<close> nor \<^verbatim>\<open>..\<close>. A listing is well formed when the answer to
  \<^verbatim>\<open>fs.readdir\<close> holds such names only.
\<close>

definition valid_filename :: "string \<Rightarrow> bool" where
  "valid_filename n = (n \<noteq> [] \<and> CHR ''/'' \<notin> set n \<and> n \<noteq> ''.'' \<and> n \<noteq> ''..'')"

definition well_formed_listing :: "env \<Rightarrow> world \<Rightarrow> string \<Rightarrow> bool" where
  "well_formed_listing E w directory =
     (case fs_readdir E (effects w) directory of
        Inl error \<Rightarrow> True
      | Inr entries \<Rightarrow> list_all (\<lambda>entry. valid_filename (dirent_name entry)) entries)"

section \<open>Properties\<close>

subsection \<open>Helper facts\<close>

lemma extractCode_returns: "extractCode p = Some (replace_ext p)"
  by (simp add: extractCode_def call_parseInt_def)

lemma findIndex_ge: "- 1 \<le> findIndex P xs"
  by (induction xs) (auto simp: Let_def)

lemma findIndex_none: "(findIndex P xs = - 1) = (\<not> list_ex P xs)"
proof (induction xs)
  case Nil
  show ?case by simp
next
  case (Cons x xs)
  have "- 1 \<le> findIndex P xs" by (rule findIndex_ge)
  with Cons show ?case by (auto simp: Let_def)
qed

lemma findIndex_first:
  "k < length xs \<Longrightarrow> P (xs ! k) \<Longrightarrow> (\<forall>j<k. \<not> P (xs ! j)) \<Longrightarrow> findIndex P xs = int k"
proof (induction xs arbitrary: k)
  case Nil
  then show ?case by simp
next
  case (Cons x xs)
  show ?case
  proof (cases k)
    case 0
    with Cons.prems show ?thesis by simp
  next
    case (Suc m)
    from Cons.prems Suc have nx: "\<not> P x" by auto
    from Cons.prems Suc have "m < length xs" "P (xs ! m)" "\<forall>j<m. \<not> P (xs ! j)" by auto
    then have "findIndex P xs = int m" by (rule Cons.IH)
    with nx Suc show ?thesis by (simp add: Let_def)
  qed
qed

subsection \<open>The branches of processImage\<close>

lemma first_match_findIndex:
  assumes "first_match info bs k"
  shows "findIndex (\<lambda>bank. Some (bank_code bank) = code info \<or> Some (nipBankCode bank) = code info) bs = int k"
proof -
  have eq: "(\<lambda>bank. Some (bank_code bank) = code info \<or> Some (nipBankCode bank) = code info) = code_matches info"
    by (rule ext) (simp add: code_matches_def)
  from assms have k: "k < length bs" and m: "code_matches info (bs ! k)"
    and n: "\<not> list_ex (code_matches info) (take k bs)"
    by (simp_all add: first_match_def)
  have "\<forall>j<k. \<not> code_matches info (bs ! j)"
  proof (intro allI impI)
    fix j assume "j < k"
    with k have "take k bs ! j = bs ! j" "j < length (take k bs)" by simp_all
    with n show "\<not> code_matches info (bs ! j)"
      by (metis list_ex_iff nth_mem)
  qed
  with k m have "findIndex (code_matches info) bs = int k" by (rule findIndex_first)
  then show ?thesis by (simp only: eq)
qed

lemma no_match_findIndex:
  assumes "\<not> list_ex (code_matches info) bs"
  shows "findIndex (\<lambda>bank. Some (bank_code bank) = code info \<or> Some (nipBankCode bank) = code info) bs = - 1"
proof -
  have eq: "(\<lambda>bank. Some (bank_code bank) = code info \<or> Some (nipBankCode bank) = code info) = code_matches info"
    by (rule ext) (simp add: code_matches_def)
  from assms have "findIndex (code_matches info) bs = - 1" by (simp add: findIndex_none)
  then show ?thesis by (simp only: eq)
qed

lemma processImage_unsupported:
  "\<not> isSupported info \<Longrightarrow>
   processImage E this w info =
     (Inl (JsError ImageValidationError (sign_warning @ ''  Unsupported format: '' @ type info)),
      info, this, emit console_warn (sign_warning @ ''  Unsupported format: '' @ type info) w)"
  by (simp add: processImage_def)

lemma processImage_no_code:
  "isSupported info \<Longrightarrow> \<not> truthy (code info) \<Longrightarrow>
   processImage E this w info =
     (Inl (JsError ImageBankMatchError (sign_warning @ ''  No code found: '' @ name info)),
      info, this, emit console_warn (sign_warning @ ''  No code found: '' @ name info) w)"
  by (simp add: processImage_def)

lemma processImage_invalid_size:
  "isSupported info \<Longrightarrow> truthy (code info) \<Longrightarrow> \<not> isValidSize info \<Longrightarrow>
   processImage E this w info =
     (Inl (JsError ImageValidationError
        (sign_warning @ ''  Invalid size: '' @ name info @ '' ('' @ sizeFormatted info @ '')'')),
      info, this,
      emit console_warn
        (sign_warning @
         (if size_i info > maxFileSize this then ''  File too large: '' else ''  File too small: '') @
         name info @ '' ('' @ sizeFormatted info @ '')'') w)"
  by (simp add: processImage_def)

lemma processImage_no_bank:
  assumes "isSupported info" "truthy (code info)" "isValidSize info"
    and "\<not> list_ex (code_matches info) (banks this)"
  shows "processImage E this w info =
     (Inl (JsError ImageBankMatchError (sign_warning @ ''  No bank found: '' @ name info)),
      info, this, emit console_warn (sign_warning @ ''  No bank found: '' @ name info) w)"
  using assms(1-3) no_match_findIndex [OF assms(4)]
  by (simp add: processImage_def)

lemma processImage_matched:
  assumes "isSupported info" "truthy (code info)" "isValidSize info"
    and "first_match info (banks this) k"
  shows "processImage E this w info =
     (let bankMatch = banks this ! k;
          info' = info\<lparr>code := Some (nipBankCode bankMatch)\<rparr>
      in if truthy (icon bankMatch) \<and> \<not> includes_str (the (icon bankMatch)) ''default-image'' then
           (Inr (icon bankMatch), info', this,
            emit console_info (sign_info @ ''  '' @ bank_name bankMatch @ '' already has an icon'') w)
         else if isCI this then (Inr (icon bankMatch), info', this, w)
         else
           (case uploadToR2 E this w info' of
              (Inl imageUrl, w1) \<Rightarrow>
                (Inl (JsError FailedUploadError (error_message imageUrl)), info', this,
                 emit console_error (error_message imageUrl) w1)
            | (Inr imageUrl, w1) \<Rightarrow>
                (Inr (Some imageUrl), info',
                 this\<lparr>banks := (banks this)[k := (banks this ! k)\<lparr>icon := Some imageUrl\<rparr>]\<rparr>, w1)))"
  using assms(1-3) first_match_findIndex [OF assms(4)]
  by (simp add: processImage_def Let_def split: prod.splits sum.splits)

subsection \<open>The path of a directory entry\<close>

lemma split_slash_not_Nil: "split_slash s \<noteq> []"
  by (induction s) (auto split: list.splits)

lemma split_slash_no_slash: "CHR ''/'' \<notin> set n \<Longrightarrow> split_slash n = [n]"
  by (induction n) (auto simp add: is_slash_def)

lemma split_slash_append:
  "CHR ''/'' \<notin> set n \<Longrightarrow> split_slash (a @ CHR ''/'' # n) = split_slash a @ [n]"
proof (induction a)
  case Nil
  then show ?case by (simp add: is_slash_def split_slash_no_slash)
next
  case (Cons c a)
  obtain s ss where s: "split_slash a = s # ss"
    using split_slash_not_Nil [of a] by (cases "split_slash a") auto
  with Cons show ?case by (simp add: is_slash_def)
qed

lemma foldl_normalize_step_last:
  "valid_filename n \<Longrightarrow>
   foldl (normalize_step b) acc (xs @ [n]) = foldl (normalize_step b) acc xs @ [n]"
  by (simp add: normalize_step_def valid_filename_def)

lemma join_slash_snoc:
  "join_slash (ys @ [n]) = (if ys = [] then n else join_slash ys @ CHR ''/'' # n)"
proof (induction ys rule: join_slash.induct)
  case 1
  show ?case by simp
next
  case (2 s)
  show ?case by simp
next
  case (3 s t ss)
  then show ?case by simp
qed

lemma last_not_slash:
  assumes "n \<noteq> []" "CHR ''/'' \<notin> set n"
  shows "last n \<noteq> CHR ''/''"
proof
  assume "last n = CHR ''/''"
  moreover from assms(1) have "last n \<in> set n" by (rule last_in_set)
  ultimately show False using assms(2) by simp
qed

lemma basename_suffix:
  assumes "n \<noteq> []" "CHR ''/'' \<notin> set n" "pre = [] \<or> last pre = CHR ''/''"
  shows "basename (pre @ n) = n"
proof -
  from assms(1,2) have h: "\<not> is_slash (hd (rev n))" "rev n \<noteq> []"
    by (simp_all add: is_slash_def hd_rev last_not_slash)
  then have d: "dropWhile is_slash (rev n @ rev pre) = rev n @ rev pre"
    by (cases "rev n") simp_all
  have t: "takeWhile (\<lambda>c. \<not> is_slash c) (rev pre) = []"
  proof (cases "pre = []")
    case True
    then show ?thesis by simp
  next
    case False
    with assms(3) have "hd (rev pre) = CHR ''/''" "rev pre \<noteq> []" by (simp_all add: hd_rev)
    then show ?thesis by (cases "rev pre") (simp_all add: is_slash_def)
  qed
  from assms(2) have a: "\<And>c. c \<in> set (rev n) \<Longrightarrow> \<not> is_slash c" by (auto simp add: is_slash_def)
  have "takeWhile (\<lambda>c. \<not> is_slash c) (rev n @ rev pre) =
      rev n @ takeWhile (\<lambda>c. \<not> is_slash c) (rev pre)"
    by (rule takeWhile_append2) (rule a)
  with t have "takeWhile (\<lambda>c. \<not> is_slash c) (rev n @ rev pre) = rev n" by simp
  with d show ?thesis by (simp add: basename_def strip_trailing_slashes_def)
qed

lemma normalize_keeps_name:
  assumes v: "valid_filename n" and p: "p = n \<or> (\<exists>d. p = d @ CHR ''/'' # n)"
  shows "\<exists>pre. normalize p = pre @ n \<and> (pre = [] \<or> last pre = CHR ''/'')"
proof -
  from v have n: "n \<noteq> []" "CHR ''/'' \<notin> set n" by (simp_all add: valid_filename_def)
  have "\<exists>xs. split_slash p = xs @ [n]"
  proof (cases "p = n")
    case True
    with n have "split_slash p = [] @ [n]" by (simp add: split_slash_no_slash)
    then show ?thesis by blast
  next
    case False
    with p obtain d where "p = d @ CHR ''/'' # n" by blast
    with n have "split_slash p = split_slash d @ [n]" by (simp add: split_slash_append)
    then show ?thesis by blast
  qed
  then obtain xs where xs: "split_slash p = xs @ [n]" by blast
  from p n have pne: "p \<noteq> []" by auto
  from p n have lastp: "last p = last n" by auto
  with n have nt: "\<not> is_slash (last p)" by (simp add: is_slash_def last_not_slash)
  define zs where "zs = foldl (normalize_step (\<not> is_slash (hd p))) [] xs"
  define q where "q = normalizeString p (\<not> is_slash (hd p))"
  have "foldl (normalize_step (\<not> is_slash (hd p))) [] (split_slash p) = zs @ [n]"
    unfolding xs zs_def by (rule foldl_normalize_step_last [OF v])
  then have q: "q = (if zs = [] then n else join_slash zs @ CHR ''/'' # n)"
    unfolding q_def by (simp only: normalizeString_def join_slash_snoc)
  with n have qne: "q \<noteq> []" by auto
  have nz: "normalize p = (if is_slash (hd p) then CHR ''/'' # q else q)"
    using pne nt qne unfolding q_def by (simp add: normalize_def Let_def)
  show ?thesis
  proof (cases "zs = []")
    case True
    with q have "q = n" by simp
    with nz have "normalize p = (if is_slash (hd p) then [CHR ''/''] else []) @ n" by simp
    moreover have "(if is_slash (hd p) then [CHR ''/''] else []) = [] \<or>
        last (if is_slash (hd p) then [CHR ''/''] else []) = CHR ''/''" by simp
    ultimately show ?thesis by blast
  next
    case False
    with q have "q = join_slash zs @ CHR ''/'' # n" by simp
    with nz have "normalize p =
        ((if is_slash (hd p) then [CHR ''/''] else []) @ join_slash zs @ [CHR ''/'']) @ n"
      by simp
    moreover have "last ((if is_slash (hd p) then [CHR ''/''] else []) @ join_slash zs @ [CHR ''/''])
        = CHR ''/''"
      by simp
    ultimately show ?thesis by blast
  qed
qed

lemma basename_path_join:
  assumes "valid_filename n"
  shows "basename (path_join [d, n]) = n"
proof -
  from assms have n: "n \<noteq> []" "CHR ''/'' \<notin> set n" by (simp_all add: valid_filename_def)
  have j: "path_join [d, n] = normalize (if d = [] then n else d @ CHR ''/'' # n)"
    using n by (simp add: path_join_def)
  have "(if d = [] then n else d @ CHR ''/'' # n) = n
      \<or> (\<exists>e. (if d = [] then n else d @ CHR ''/'' # n) = e @ CHR ''/'' # n)"
    by simp
  from normalize_keeps_name [OF assms this] obtain pre where
    "normalize (if d = [] then n else d @ CHR ''/'' # n) = pre @ n" "pre = [] \<or> last pre = CHR ''/''"
    by blast
  with n j show ?thesis by (simp add: basename_suffix)
qed

lemma extname_path_join:
  assumes "valid_filename n"
  shows "extname (path_join [d, n]) = extname n"
proof -
  from assms have n: "n \<noteq> []" "CHR ''/'' \<notin> set n" by (simp_all add: valid_filename_def)
  have "basename ([] @ n) = n" using n by (intro basename_suffix) simp_all
  then show ?thesis by (simp add: extname_def basename_path_join [OF assms])
qed

subsection \<open>The upload gateway\<close>

lemma uploadToR2_unconfigured:
  "s3Client this = None \<or> r2Config this = None \<Longrightarrow>
   uploadToR2 E this w info =
     (Inl (JsError Error ''R2 client not configured''),
      emit console_error ''R2 client not configured'' w)"
  by (auto simp add: uploadToR2_def)

lemma effects_perform [simp]: "effects (perform ev w) = effects w @ [ev]"
  by (simp add: perform_def)

lemma effects_emit [simp]: "effects (emit m s w) = effects w"
  by (simp add: emit_def)

lemma console_perform [simp]: "console (perform ev w) = console w"
  by (simp add: perform_def)

lemma console_emit [simp]: "console (emit m s w) = console w @ [(m, s)]"
  by (simp add: emit_def)

lemma uploadToR2_configured_effects:
  assumes "s3Client this \<noteq> None" "r2Config this \<noteq> None"
  shows "\<exists>evs. effects (snd (uploadToR2 E this w info)) = effects w @ ReadFile (path info) # evs"
proof (cases "fs_readFile E (effects w) (path info)")
  case (Inl e)
  with assms show ?thesis by (simp add: uploadToR2_def Let_def)
next
  case (Inr buf)
  with assms show ?thesis
    by (simp add: uploadToR2_def Let_def split: option.splits)
qed

lemma uploadToR2_configured_reads:
  assumes "s3Client this \<noteq> None" "r2Config this \<noteq> None"
  shows "take (Suc (length (effects w))) (effects (snd (uploadToR2 E this w info))) =
     effects w @ [ReadFile (path info)]"
proof -
  from uploadToR2_configured_effects [OF assms] obtain evs where
    "effects (snd (uploadToR2 E this w info)) = effects w @ ReadFile (path info) # evs" by blast
  then show ?thesis by simp
qed

lemma uploadToR2_changes_world: "snd (uploadToR2 E this w info) \<noteq> w"
proof (cases "s3Client this = None \<or> r2Config this = None")
  case True
  then have "console (snd (uploadToR2 E this w info)) = console w @ [(console_error, ''R2 client not configured'')]"
    by (simp add: uploadToR2_unconfigured)
  then show ?thesis by auto
next
  case False
  then obtain evs where
    "effects (snd (uploadToR2 E this w info)) = effects w @ ReadFile (path info) # evs"
    using uploadToR2_configured_effects [of this E w info] by blast
  then show ?thesis by auto
qed

subsection \<open>The file inspector\<close>

lemma getImageInfo_SomeD:
  assumes "getImageInfo E this w imagePath = (Some info, w1)"
  shows "\<exists>st. fs_stat E (effects w) imagePath = Inr st \<and> size_i info = stats_size st
           \<and> isValidSize info = (minFileSize this \<le> stats_size st \<and> stats_size st \<le> maxFileSize this)
           \<and> isSupported info = (toLowerCase E (extname imagePath) \<in> set (supportedFormats this))
           \<and> name info = basename imagePath \<and> path info = imagePath
           \<and> code info = extractCode (basename imagePath)
           \<and> w1 = perform (Stat imagePath) w"
proof (cases "fs_stat E (effects w) imagePath")
  case (Inl e)
  with assms show ?thesis by (simp add: getImageInfo_def)
next
  case (Inr st)
  with assms show ?thesis by (auto simp add: getImageInfo_def Let_def)
qed

subsection \<open>The clean-up\<close>

lemma delete_files_result:
  "delete_files E d cs (dc, fc, w) = (dc', fc', w') \<Longrightarrow>
   effects w' = effects w @ map (\<lambda>c. Unlink (path_resolve (cwd E) [d, c])) cs
   \<and> fc' = fc + unlink_failures E (effects w) (map (\<lambda>c. path_resolve (cwd E) [d, c]) cs)
   \<and> dc' + fc' = dc + fc + length cs"
proof (induction cs arbitrary: dc fc w)
  case Nil
  then show ?case by simp
next
  case (Cons c cs)
  let ?t = "path_resolve (cwd E) [d, c]"
  show ?case
  proof (cases "fs_unlink E (effects w) ?t")
    case None
    with Cons.prems have
      "delete_files E d cs (dc + 1, fc,
         emit console_log (sign_check @ '' Deleted: '' @ basename c) (perform (Unlink ?t) w)) =
       (dc', fc', w')"
      by (simp add: Let_def)
    from Cons.IH [OF this] None show ?thesis by simp
  next
    case (Some e)
    with Cons.prems have
      "delete_files E d cs (dc, fc + 1,
         emit console_error (sign_cross @ '' Failed to delete '' @ basename c @ '': '' @
           text_of (message e)) (perform (Unlink ?t) w)) =
       (dc', fc', w')"
      by (simp add: Let_def)
    from Cons.IH [OF this] Some show ?thesis by simp
  qed
qed

lemma cleanup_empty:
  "cleanup E this w [] =
     (None,
      emit console_log (sign_info @ ''  No images to delete'')
        (emit console_log
           (sign_check @ '' Updated '' @ banksFilePath this @ '' with '' @
            dec_nat (length (banks this)) @ '' banks'')
           (emit console_log (newline @ sign_broom @ '' Starting cleanup...'') w)))"
  by (simp add: cleanup_def Let_def updatedBanks_of_def)

lemma cleanup_result:
  assumes "cleanup E this w cs = (r, w')"
  shows "effects w' = effects w @ map Unlink (deletion_targets E cs)
     \<and> r = (if unlink_failures E (effects w) (deletion_targets E cs) > 0
            then Some (JsError Error
              (''Failed to delete '' @ dec_nat (unlink_failures E (effects w) (deletion_targets E cs)) @
               '' out of '' @ dec_nat (length cs) @ '' files''))
            else None)"
proof (cases "cs = []")
  case True
  with assms show ?thesis by (auto simp add: cleanup_empty deletion_targets_def)
next
  case False
  let ?d = "path_resolve (cwd E) [''./_data/images'']"
  let ?w3 = "emit console_log
      (sign_bin @ ''  Deleting '' @ dec_nat (length cs) @ '' processed images...'')
      (emit console_log
         (sign_check @ '' Updated '' @ banksFilePath this @ '' with '' @
          dec_nat (length (updatedBanks_of this)) @ '' banks'')
         (emit console_log (newline @ sign_broom @ '' Starting cleanup...'') w))"
  obtain dc fc w4 where d: "delete_files E ?d cs (0, 0, ?w3) = (dc, fc, w4)"
    by (cases "delete_files E ?d cs (0, 0, ?w3)")
  from delete_files_result [OF d]
  have e: "effects w4 = effects w @ map Unlink (deletion_targets E cs)"
    and f: "fc = unlink_failures E (effects w) (deletion_targets E cs)"
    by (simp_all add: deletion_targets_def comp_def)
  from assms False d have "effects w' = effects w4"
    and "r = (if fc > 0 then Some (JsError Error
              (''Failed to delete '' @ dec_nat fc @ '' out of '' @ dec_nat (length cs) @ '' files''))
            else None)"
    by (auto simp add: cleanup_def Let_def split: if_splits)
  with e f show ?thesis by simp
qed

lemma unlink_failures_pos:
  "(0 < unlink_failures E h ts) =
   (\<exists>i<length ts. fs_unlink E (h @ map Unlink (take i ts)) (ts ! i) \<noteq> None)"
proof (induction ts arbitrary: h)
  case Nil
  show ?case by simp
next
  case (Cons t ts)
  have "(\<exists>i<length (t # ts). fs_unlink E (h @ map Unlink (take i (t # ts))) ((t # ts) ! i) \<noteq> None) =
        (fs_unlink E h t \<noteq> None
         \<or> (\<exists>i<length ts. fs_unlink E ((h @ [Unlink t]) @ map Unlink (take i ts)) (ts ! i) \<noteq> None))"
    (is "?L = (?A \<or> ?B)")
  proof
    assume ?L
    then obtain i where i: "i < length (t # ts)"
      "fs_unlink E (h @ map Unlink (take i (t # ts))) ((t # ts) ! i) \<noteq> None" by blast
    show "?A \<or> ?B"
    proof (cases i)
      case 0
      with i show ?thesis by simp
    next
      case (Suc j)
      with i have "j < length ts"
        "fs_unlink E ((h @ [Unlink t]) @ map Unlink (take j ts)) (ts ! j) \<noteq> None" by simp_all
      then show ?thesis by blast
    qed
  next
    assume "?A \<or> ?B"
    then show ?L
    proof
      assume ?A
      then have "0 < length (t # ts)"
        "fs_unlink E (h @ map Unlink (take 0 (t # ts))) ((t # ts) ! 0) \<noteq> None" by simp_all
      then show ?L by blast
    next
      assume ?B
      then obtain j where j: "j < length ts"
        "fs_unlink E ((h @ [Unlink t]) @ map Unlink (take j ts)) (ts ! j) \<noteq> None" by blast
      then have "Suc j < length (t # ts)"
        "fs_unlink E (h @ map Unlink (take (Suc j) (t # ts))) ((t # ts) ! Suc j) \<noteq> None"
        by simp_all
      then show ?L by blast
    qed
  qed
  with Cons [of "h @ [Unlink t]"] show ?case by auto
qed

subsection \<open>The loop over the scanned paths\<close>





subsection \<open>Supported formats along a run\<close>

lemma scan_entries_supported:
  "scan_entries E this d es (fs, rep) = (fs', rep') \<Longrightarrow>
   list_all (\<lambda>e. valid_filename (dirent_name e)) es \<Longrightarrow>
   list_all (\<lambda>p. toLowerCase E (extname p) \<in> set (supportedFormats this)) fs \<Longrightarrow>
   list_all (\<lambda>p. toLowerCase E (extname p) \<in> set (supportedFormats this)) fs'"
proof (induction es arbitrary: fs rep)
  case Nil
  then show ?case by simp
next
  case (Cons e es)
  from Cons.prems(2) have v: "valid_filename (dirent_name e)"
    and vs: "list_all (\<lambda>e. valid_filename (dirent_name e)) es" by simp_all
  show ?case
  proof (cases "isFile e")
    case False
    with Cons.prems(1) have "scan_entries E this d es (fs, rep) = (fs', rep')" by simp
    from Cons.IH [OF this vs Cons.prems(3)] show ?thesis .
  next
    case True
    show ?thesis
    proof (cases "toLowerCase E (extname (dirent_name e)) \<in> set (supportedFormats this)")
      case s: True
      with True Cons.prems(1) have r:
        "scan_entries E this d es (fs @ [path_join [d, dirent_name e]], rep) = (fs', rep')"
        by (simp add: Let_def)
      from s have "toLowerCase E (extname (path_join [d, dirent_name e])) \<in> set (supportedFormats this)"
        by (simp add: extname_path_join [OF v])
      with Cons.prems(3) have
        "list_all (\<lambda>p. toLowerCase E (extname p) \<in> set (supportedFormats this))
           (fs @ [path_join [d, dirent_name e]])" by simp
      from Cons.IH [OF r vs this] show ?thesis .
    next
      case s: False
      with True Cons.prems(1) have
        "scan_entries E this d es (fs, rep\<lparr>skipped := skipped rep @
            [\<lparr>skipped_name = dirent_name e,
              reason = sign_warning @ ''  Unsupported format: '' @
                toLowerCase E (extname (dirent_name e))\<rparr>]\<rparr>) = (fs', rep')"
        by (simp add: Let_def)
      from Cons.IH [OF this vs Cons.prems(3)] show ?thesis .
    qed
  qed
qed

lemma getAllImageFiles_supported:
  assumes "well_formed_listing E w d"
    and "getAllImageFiles E this w d rep = (fs, rep', w')"
  shows "list_all (\<lambda>p. toLowerCase E (extname p) \<in> set (supportedFormats this)) fs"
proof (cases "fs_readdir E (effects w) d")
  case (Inl e)
  with assms(2) show ?thesis by (auto simp add: getAllImageFiles_def)
next
  case (Inr es)
  obtain fs1 rep1 where s: "scan_entries E this d es ([], rep) = (fs1, rep1)"
    by (cases "scan_entries E this d es ([], rep)")
  with assms(2) Inr have f: "fs = fs1" by (simp add: getAllImageFiles_def)
  from assms(1) Inr have "list_all (\<lambda>e. valid_filename (dirent_name e)) es"
    by (simp add: well_formed_listing_def)
  from scan_entries_supported [OF s this] f show ?thesis by simp
qed

lemma processImage_supported:
  assumes "isSupported info"
  shows "fst (processImage E this w info) \<noteq>
     Inl (JsError ImageValidationError (sign_warning @ ''  Unsupported format: '' @ t))"
proof (cases "truthy (code info)")
  case False
  with assms show ?thesis by (simp add: processImage_no_code)
next
  case c: True
  show ?thesis
  proof (cases "isValidSize info")
    case False
    with assms c show ?thesis by (simp add: processImage_invalid_size)
  next
    case v: True
    show ?thesis
    proof (cases "list_ex (code_matches info) (banks this)")
      case False
      with assms c v show ?thesis by (simp add: processImage_no_bank)
    next
      case True
      then have "findIndex (code_matches info) (banks this) \<noteq> - 1" by (simp add: findIndex_none)
      moreover have "(\<lambda>bank. Some (bank_code bank) = code info \<or> Some (nipBankCode bank) = code info)
          = code_matches info"
        by (rule ext) (simp add: code_matches_def)
      ultimately show ?thesis using assms c v
        by (simp add: processImage_def Let_def split: prod.splits sum.splits)
    qed
  qed
qed

lemma processImage_keeps:
  "processImage E this w info = (r, info', this', w') \<Longrightarrow>
   isSupported info' = isSupported info \<and> supportedFormats this' = supportedFormats this"
  by (auto simp add: processImage_def Let_def split: if_splits prod.splits sum.splits)

lemma process_file_supported:
  assumes "process_file E v p (res, n, rep, this, w) = (res', n', rep', this', w')"
    and "toLowerCase E (extname p) \<in> set (supportedFormats this)"
    and "list_all isSupported res"
  shows "list_all isSupported res' \<and> supportedFormats this' = supportedFormats this"
proof -
  obtain oi w1 where g: "getImageInfo E this w p = (oi, w1)"
    by (cases "getImageInfo E this w p")
  show ?thesis
  proof (cases oi)
    case None
    with assms g show ?thesis by (simp add: process_file_def)
  next
    case (Some info)
    from getImageInfo_SomeD [OF g [unfolded Some]] assms(2) have s: "isSupported info" by blast
    obtain r info' this1 w3 where
      pi: "processImage E this (if v then logImageInfo info w1 else w1) info = (r, info', this1, w3)"
      by (cases "processImage E this (if v then logImageInfo info w1 else w1) info")
    from processImage_keeps [OF pi] s have k: "isSupported info'"
      "supportedFormats this1 = supportedFormats this" by simp_all
    from assms(1) g Some pi have "res' = res @ [info'] \<and> this' = this1"
      by (cases r) (auto simp add: process_file_def Let_def split: if_splits)
    with k assms(3) show ?thesis by simp
  qed
qed

lemma process_files_supported:
  "process_files E v ps (res, n, rep, this, w) = (res', n', rep', this', w') \<Longrightarrow>
   list_all (\<lambda>p. toLowerCase E (extname p) \<in> set (supportedFormats this)) ps \<Longrightarrow>
   list_all isSupported res \<Longrightarrow>
   list_all isSupported res'"
proof (induction ps arbitrary: res n rep this w)
  case Nil
  then show ?case by simp
next
  case (Cons p ps)
  obtain res1 n1 rep1 this1 w1 where
    s: "process_file E v p (res, n, rep, this, w) = (res1, n1, rep1, this1, w1)"
    by (cases "process_file E v p (res, n, rep, this, w)")
  from Cons.prems(2) have hp: "toLowerCase E (extname p) \<in> set (supportedFormats this)"
    and hps: "list_all (\<lambda>p. toLowerCase E (extname p) \<in> set (supportedFormats this)) ps"
    by simp_all
  from process_file_supported [OF s hp Cons.prems(3)] have
    k: "list_all isSupported res1" "supportedFormats this1 = supportedFormats this" by simp_all
  from Cons.prems(1) s have
    "process_files E v ps (res1, n1, rep1, this1, w1) = (res', n', rep', this', w')" by simp
  from Cons.IH [OF this] hps k show ?case by simp
qed

subsection \<open>Evaluating the concrete inputs\<close>

lemmas ex_defs = example_processor_def new_ImageProcessor_def example_banks_def example_info_def
  truthy_def first_match_def code_matches_def

lemma dec_nat_2048: "dec_nat 2048 = ''2048''"
  by code_simp

lemma extname_77: "extname ''_data/images/77.png'' = ''.png''"
  by code_simp

lemma basename_77: "basename ''_data/images/77.png'' = ''77.png''"
  by code_simp

lemma lower_png: "lower_ascii ''.png'' = ''.png''"
  by code_simp

lemma extractCode_77: "extractCode ''77.png'' = Some ''77''"
  by code_simp

lemma example_getImageInfo:
  "lo \<noteq> 0 \<Longrightarrow> hi \<noteq> 0 \<Longrightarrow>
   getImageInfo example_env (example_processor lo hi config ci) w ''_data/images/77.png'' =
     (Some ((example_info ''77.png'' (Some ''77''))\<lparr>isValidSize := (lo \<le> 2048 \<and> 2048 \<le> hi)\<rparr>),
      perform (Stat ''_data/images/77.png'') w)"
  by (simp add: getImageInfo_def example_env_def example_processor_def new_ImageProcessor_def
      extname_77 basename_77 lower_png extractCode_77 dec_nat_2048 example_info_def
      default_mimeTypes_def defaultSupportedFormats_def Let_def)

lemma example_targets:
  "deletion_targets example_env [''10.jpg'', ''20.png''] =
     [''/repo/_data/images/10.jpg'', ''/repo/_data/images/20.png'']"
  by code_simp

lemma example_failures:
  "unlink_failures example_env [] [''/repo/_data/images/10.jpg'', ''/repo/_data/images/20.png''] = 1"
  by (simp add: example_env_def)

lemma dec_nat_small:
  "dec_nat 1 = ''1''" "dec_nat 2 = ''2''" "dec_nat 3 = ''3''"
  "dec_nat (Suc 0) = ''1''" "dec_nat (Suc (Suc 0)) = ''2''" "dec_nat (Suc (Suc (Suc 0))) = ''3''"
  by code_simp+

lemma example_targets_one:
  "deletion_targets example_env [''10.jpg''] = [''/repo/_data/images/10.jpg'']"
  by code_simp





lemma example_files:
  "fst (getAllImageFiles example_env
      (example_processor 1024 102400 (Some example_r2Config) False) empty_world
      ''./_data/images'' \<lparr>skipped = [], failed_upload = [], completed = []\<rparr>) =
   [''_data/images/10.JPG'', ''_data/images/logo-a.png'', ''_data/images/77.png'']"
  by code_simp

lemma example_listing: "well_formed_listing example_env empty_world ''./_data/images''"
  by (simp add: well_formed_listing_def example_env_def valid_filename_def)

lemma example_ext: "toLowerCase example_env (extname ''_data/images/10.JPG'') = ''.jpg''"
  by code_simp

section \<open>The claims\<close>

subsection \<open>C1: extractCode\<close>

text \<open>
  C1. The claim: \<^verbatim>\<open>extractCode("123.png")\<close> is \<^verbatim>\<open>"123"\<close> and
  \<^verbatim>\<open>extractCode("logo-a.png")\<close> is \<^verbatim>\<open>null\<close>. The code returns the name without
  its extension in both cases: \<^verbatim>\<open>parseInt("logo-a")\<close> is \<^verbatim>\<open>NaN\<close>, which is
  returned and not thrown, so the \<^verbatim>\<open>catch\<close> that returns \<^verbatim>\<open>null\<close> is never
  entered, and the code of \<^verbatim>\<open>logo-a.png\<close> is the string \<^verbatim>\<open>logo-a\<close>, which is not
  an integer string. No path gives \<^verbatim>\<open>null\<close>.
\<close>

theorem extractCode_logo_a:
  "extractCode ''logo-a.png'' = Some ''logo-a'' \<and> parseInt ''logo-a'' = None
     \<and> \<not> isIntegerString ''logo-a'' \<and> extractCode ''123.png'' = Some ''123''
     \<and> extractCode imagePath \<noteq> None"
  by (simp add: extractCode_def call_parseInt_def parseInt_def is_space_def parse_unsigned_def
        parse_digits_def is_digit_in_def digit_val_def isIntegerString_def is_decimal_digit_def)

subsection \<open>C2: one bucket for each descriptor\<close>



subsection \<open>C3: the order of the rules in processImage\<close>

text \<open>
  C3. \<^verbatim>\<open>processImage\<close> checks format support, then the presence of a code, then the
  size, then the registry, and the first rule that fails gives the result: an
  unsupported format a validation error; a code that is \<^verbatim>\<open>null\<close> (or empty) a match
  error "No code found"; an invalid size a validation error; no record whose code or
  NIP code equals the descriptor's code a match error "No bank found". When records
  match, the first of them in store order, at index \<open>k\<close>, is the one used: the
  descriptor takes its NIP code, the result is its icon or the outcome of an upload,
  and only its icon can change.
\<close>

theorem processImage_rule_order:
  "(\<not> isSupported info \<longrightarrow>
      fst (processImage E this w info) =
        Inl (JsError ImageValidationError (sign_warning @ ''  Unsupported format: '' @ type info)))
   \<and> (isSupported info \<and> \<not> truthy (code info) \<longrightarrow>
      fst (processImage E this w info) =
        Inl (JsError ImageBankMatchError (sign_warning @ ''  No code found: '' @ name info)))
   \<and> (isSupported info \<and> truthy (code info) \<and> \<not> isValidSize info \<longrightarrow>
      fst (processImage E this w info) =
        Inl (JsError ImageValidationError
          (sign_warning @ ''  Invalid size: '' @ name info @ '' ('' @ sizeFormatted info @ '')'')))
   \<and> (isSupported info \<and> truthy (code info) \<and> isValidSize info
        \<and> \<not> list_ex (code_matches info) (banks this) \<longrightarrow>
      fst (processImage E this w info) =
        Inl (JsError ImageBankMatchError (sign_warning @ ''  No bank found: '' @ name info)))
   \<and> (isSupported info \<and> truthy (code info) \<and> isValidSize info
        \<and> first_match info (banks this) k \<longrightarrow>
      (case processImage E this w info of
         (r, info', this', w') \<Rightarrow>
           code info' = Some (nipBankCode (banks this ! k))
           \<and> (r = Inr (icon (banks this ! k)) \<and> this' = this
              \<or> (\<exists>m. r = Inl (JsError FailedUploadError m)) \<and> this' = this
              \<or> (\<exists>url. r = Inr (Some url)
                    \<and> this' = this\<lparr>banks := (banks this)[k := (banks this ! k)\<lparr>icon := Some url\<rparr>]\<rparr>))))"
proof (intro conjI impI)
  assume "\<not> isSupported info"
  then show "fst (processImage E this w info) =
        Inl (JsError ImageValidationError (sign_warning @ ''  Unsupported format: '' @ type info))"
    by (simp add: processImage_unsupported)
next
  assume "isSupported info \<and> \<not> truthy (code info)"
  then show "fst (processImage E this w info) =
        Inl (JsError ImageBankMatchError (sign_warning @ ''  No code found: '' @ name info))"
    by (simp add: processImage_no_code)
next
  assume "isSupported info \<and> truthy (code info) \<and> \<not> isValidSize info"
  then show "fst (processImage E this w info) =
        Inl (JsError ImageValidationError
          (sign_warning @ ''  Invalid size: '' @ name info @ '' ('' @ sizeFormatted info @ '')''))"
    by (simp add: processImage_invalid_size)
next
  assume "isSupported info \<and> truthy (code info) \<and> isValidSize info
        \<and> \<not> list_ex (code_matches info) (banks this)"
  then show "fst (processImage E this w info) =
        Inl (JsError ImageBankMatchError (sign_warning @ ''  No bank found: '' @ name info))"
    by (simp add: processImage_no_bank)
next
  assume a: "isSupported info \<and> truthy (code info) \<and> isValidSize info
        \<and> first_match info (banks this) k"
  then have eq: "processImage E this w info =
     (let bankMatch = banks this ! k;
          info' = info\<lparr>code := Some (nipBankCode bankMatch)\<rparr>
      in if truthy (icon bankMatch) \<and> \<not> includes_str (the (icon bankMatch)) ''default-image'' then
           (Inr (icon bankMatch), info', this,
            emit console_info (sign_info @ ''  '' @ bank_name bankMatch @ '' already has an icon'') w)
         else if isCI this then (Inr (icon bankMatch), info', this, w)
         else
           (case uploadToR2 E this w info' of
              (Inl imageUrl, w1) \<Rightarrow>
                (Inl (JsError FailedUploadError (error_message imageUrl)), info', this,
                 emit console_error (error_message imageUrl) w1)
            | (Inr imageUrl, w1) \<Rightarrow>
                (Inr (Some imageUrl), info',
                 this\<lparr>banks := (banks this)[k := (banks this ! k)\<lparr>icon := Some imageUrl\<rparr>]\<rparr>, w1)))"
    by (intro processImage_matched) simp_all
  show "case processImage E this w info of
         (r, info', this', w') \<Rightarrow>
           code info' = Some (nipBankCode (banks this ! k))
           \<and> (r = Inr (icon (banks this ! k)) \<and> this' = this
              \<or> (\<exists>m. r = Inl (JsError FailedUploadError m)) \<and> this' = this
              \<or> (\<exists>url. r = Inr (Some url)
                    \<and> this' = this\<lparr>banks := (banks this)[k := (banks this ! k)\<lparr>icon := Some url\<rparr>]\<rparr>))"
    unfolding eq by (simp add: Let_def split: prod.splits sum.splits)
qed

theorem processImage_rule_order_witness:
  "fst (processImage example_env (example_processor 1024 102400 None True) empty_world
        ((example_info ''x.bmp'' (Some ''x''))\<lparr>isSupported := False, type := ''image/bmp''\<rparr>)) =
     Inl (JsError ImageValidationError (sign_warning @ ''  Unsupported format: image/bmp''))
   \<and> fst (processImage example_env (example_processor 1024 102400 None True) empty_world
        (example_info ''.png'' None)) =
     Inl (JsError ImageBankMatchError (sign_warning @ ''  No code found: .png''))
   \<and> fst (processImage example_env (example_processor 1024 102400 None True) empty_world
        ((example_info ''10.png'' (Some ''10''))\<lparr>isValidSize := False\<rparr>)) =
     Inl (JsError ImageValidationError (sign_warning @ ''  Invalid size: 10.png (2048 B)''))
   \<and> fst (processImage example_env (example_processor 1024 102400 None True) empty_world
        (example_info ''99.png'' (Some ''99''))) =
     Inl (JsError ImageBankMatchError (sign_warning @ ''  No bank found: 99.png''))
   \<and> first_match (example_info ''77.png'' (Some ''77'')) example_banks 1
   \<and> code_matches (example_info ''77.png'' (Some ''77'')) (example_banks ! 2)
   \<and> code (fst (snd (processImage example_env (example_processor 1024 102400 None True) empty_world
        (example_info ''77.png'' (Some ''77''))))) = Some ''000077''"
  using
    processImage_rule_order [of "(example_info ''x.bmp'' (Some ''x''))\<lparr>isSupported := False, type := ''image/bmp''\<rparr>"
      example_env "example_processor 1024 102400 None True" empty_world 0]
    processImage_rule_order [of "example_info ''.png'' None"
      example_env "example_processor 1024 102400 None True" empty_world 0]
    processImage_rule_order [of "(example_info ''10.png'' (Some ''10''))\<lparr>isValidSize := False\<rparr>"
      example_env "example_processor 1024 102400 None True" empty_world 0]
    processImage_rule_order [of "example_info ''99.png'' (Some ''99'')"
      example_env "example_processor 1024 102400 None True" empty_world 0]
    processImage_rule_order [of "example_info ''77.png'' (Some ''77'')"
      example_env "example_processor 1024 102400 None True" empty_world 1]
  by (simp add: ex_defs split: prod.splits)

subsection \<open>C4: the size bounds\<close>




subsection \<open>C5: an icon that is already set\<close>

text \<open>
  C5, as amended. For a supported descriptor with a code and a valid size whose first
  matching record is at index \<open>k\<close>: when that record has an icon without the marker
  \<^verbatim>\<open>default-image\<close>, \<^verbatim>\<open>processImage\<close> returns that icon, records no event and leaves
  the processor as it is; when the icon contains the marker and the processor is not
  in CI mode, the result is the one computed from the answer of \<^verbatim>\<open>uploadToR2\<close> for
  the descriptor, and with a configured gateway the next event is the read of the
  image file for the upload.
\<close>

theorem icon_short_circuit:
  assumes "isSupported info" "truthy (code info)" "isValidSize info"
    and "first_match info (banks this) k"
  shows
   "(truthy (icon (banks this ! k))
       \<and> \<not> includes_str (the (icon (banks this ! k))) ''default-image'' \<longrightarrow>
     processImage E this w info =
       (Inr (icon (banks this ! k)), info\<lparr>code := Some (nipBankCode (banks this ! k))\<rparr>, this,
        emit console_info
          (sign_info @ ''  '' @ bank_name (banks this ! k) @ '' already has an icon'') w))
    \<and> (truthy (icon (banks this ! k))
       \<and> includes_str (the (icon (banks this ! k))) ''default-image'' \<and> \<not> isCI this \<longrightarrow>
     processImage E this w info =
       (case uploadToR2 E this w (info\<lparr>code := Some (nipBankCode (banks this ! k))\<rparr>) of
          (Inl e, w1) \<Rightarrow>
            (Inl (JsError FailedUploadError (error_message e)),
             info\<lparr>code := Some (nipBankCode (banks this ! k))\<rparr>, this,
             emit console_error (error_message e) w1)
        | (Inr url, w1) \<Rightarrow>
            (Inr (Some url), info\<lparr>code := Some (nipBankCode (banks this ! k))\<rparr>,
             this\<lparr>banks := (banks this)[k := (banks this ! k)\<lparr>icon := Some url\<rparr>]\<rparr>, w1))
     \<and> (s3Client this \<noteq> None \<and> r2Config this \<noteq> None \<longrightarrow>
          take (Suc (length (effects w))) (effects (snd (snd (snd (processImage E this w info))))) =
            effects w @ [ReadFile (path info)]))"
proof (intro conjI impI)
  note m = processImage_matched [OF assms, of E w]
  {
    assume "truthy (icon (banks this ! k))
       \<and> \<not> includes_str (the (icon (banks this ! k))) ''default-image''"
    then show "processImage E this w info =
       (Inr (icon (banks this ! k)), info\<lparr>code := Some (nipBankCode (banks this ! k))\<rparr>, this,
        emit console_info
          (sign_info @ ''  '' @ bank_name (banks this ! k) @ '' already has an icon'') w)"
      unfolding m by (simp add: Let_def)
  }
  {
    assume a: "truthy (icon (banks this ! k))
       \<and> includes_str (the (icon (banks this ! k))) ''default-image'' \<and> \<not> isCI this"
    then show eq: "processImage E this w info =
       (case uploadToR2 E this w (info\<lparr>code := Some (nipBankCode (banks this ! k))\<rparr>) of
          (Inl e, w1) \<Rightarrow>
            (Inl (JsError FailedUploadError (error_message e)),
             info\<lparr>code := Some (nipBankCode (banks this ! k))\<rparr>, this,
             emit console_error (error_message e) w1)
        | (Inr url, w1) \<Rightarrow>
            (Inr (Some url), info\<lparr>code := Some (nipBankCode (banks this ! k))\<rparr>,
             this\<lparr>banks := (banks this)[k := (banks this ! k)\<lparr>icon := Some url\<rparr>]\<rparr>, w1))"
      unfolding m by (simp add: Let_def)
    assume c: "s3Client this \<noteq> None \<and> r2Config this \<noteq> None"
    then have r: "take (Suc (length (effects w)))
       (effects (snd (uploadToR2 E this w (info\<lparr>code := Some (nipBankCode (banks this ! k))\<rparr>)))) =
       effects w @ [ReadFile (path info)]"
      using uploadToR2_configured_reads [of this w E "info\<lparr>code := Some (nipBankCode (banks this ! k))\<rparr>"]
      by simp
    obtain r1 w1 where u: "uploadToR2 E this w (info\<lparr>code := Some (nipBankCode (banks this ! k))\<rparr>) = (r1, w1)"
      by (cases "uploadToR2 E this w (info\<lparr>code := Some (nipBankCode (banks this ! k))\<rparr>)")
    from r u have r': "take (Suc (length (effects w))) (effects w1) = effects w @ [ReadFile (path info)]"
      by simp
    show "take (Suc (length (effects w))) (effects (snd (snd (snd (processImage E this w info))))) =
            effects w @ [ReadFile (path info)]"
      unfolding eq u using r' by (cases r1) simp_all
  }
qed

theorem icon_short_circuit_witness:
  "first_match (example_info ''10.png'' (Some ''10''))
      (banks (example_processor 1024 102400 (Some example_r2Config) False)) 0
   \<and> processImage example_env (example_processor 1024 102400 (Some example_r2Config) False)
        empty_world (example_info ''10.png'' (Some ''10'')) =
       (Inr (Some ''https://cdn/logo/000010''), example_info ''10.png'' (Some ''000010''),
        example_processor 1024 102400 (Some example_r2Config) False,
        emit console_info (sign_info @ ''  Ten already has an icon'') empty_world)
   \<and> first_match (example_info ''77.png'' (Some ''77''))
      (banks (example_processor 1024 102400 (Some example_r2Config) False)) 1
   \<and> includes_str ''https://cdn/logo/default-image'' ''default-image''
   \<and> take 1 (effects (snd (snd (snd
        (processImage example_env (example_processor 1024 102400 (Some example_r2Config) False)
           empty_world (example_info ''77.png'' (Some ''77'')))))))
       = [ReadFile ''_data/images/77.png'']"
proof -
  let ?P = "example_processor 1024 102400 (Some example_r2Config) False"
  let ?a = "example_info ''10.png'' (Some ''10'')"
  let ?b = "example_info ''77.png'' (Some ''77'')"
  have sa: "isSupported ?a" "truthy (code ?a)" "isValidSize ?a"
    by (simp_all add: ex_defs)
  have sb: "isSupported ?b" "truthy (code ?b)" "isValidSize ?b"
    by (simp_all add: ex_defs)
  have fa: "first_match ?a (banks ?P) 0" by (simp add: ex_defs)
  have fb: "first_match ?b (banks ?P) 1" by (simp add: ex_defs)
  have ia: "truthy (icon (banks ?P ! 0))
      \<and> \<not> includes_str (the (icon (banks ?P ! 0))) ''default-image''"
    by (simp add: ex_defs)
  have ib: "truthy (icon (banks ?P ! 1))
      \<and> includes_str (the (icon (banks ?P ! 1))) ''default-image'' \<and> \<not> isCI ?P"
    by (simp add: ex_defs)
  have cf: "s3Client ?P \<noteq> None \<and> r2Config ?P \<noteq> None" by (simp add: ex_defs)
  note ta = icon_short_circuit [OF sa fa, of example_env empty_world, THEN conjunct1, THEN mp, OF ia]
  note tb = icon_short_circuit [OF sb fb, of example_env empty_world, THEN conjunct2, THEN mp, OF ib,
      THEN conjunct2, THEN mp, OF cf]
  have 1: "processImage example_env ?P empty_world ?a =
       (Inr (Some ''https://cdn/logo/000010''), example_info ''10.png'' (Some ''000010''), ?P,
        emit console_info (sign_info @ ''  Ten already has an icon'') empty_world)"
    unfolding ta by (simp add: ex_defs)
  have 2: "take 1 (effects (snd (snd (snd (processImage example_env ?P empty_world ?b))))) =
       [ReadFile ''_data/images/77.png'']"
    using tb by (simp add: empty_world_def example_info_def)
  have 3: "includes_str ''https://cdn/logo/default-image'' ''default-image''" by simp
  from fa 1 fb 3 2 show ?thesis by (intro conjI)
qed

text \<open>
  The claim as first stated has no condition on the mode. In CI mode the record of
  \<^verbatim>\<open>77.png\<close> holds the placeholder icon, and \<^verbatim>\<open>processImage\<close> returns the
  placeholder and leaves the world as it was, whereas every call of \<^verbatim>\<open>uploadToR2\<close>
  changes the world: no upload is attempted.
\<close>

theorem icon_placeholder_in_ci:
  "isCI (example_processor 1024 102400 (Some example_r2Config) True)
   \<and> first_match (example_info ''77.png'' (Some ''77''))
      (banks (example_processor 1024 102400 (Some example_r2Config) True)) 1
   \<and> icon (banks (example_processor 1024 102400 (Some example_r2Config) True) ! 1)
       = Some ''https://cdn/logo/default-image''
   \<and> includes_str ''https://cdn/logo/default-image'' ''default-image''
   \<and> processImage example_env (example_processor 1024 102400 (Some example_r2Config) True)
        empty_world (example_info ''77.png'' (Some ''77'')) =
       (Inr (Some ''https://cdn/logo/default-image''), example_info ''77.png'' (Some ''000077''),
        example_processor 1024 102400 (Some example_r2Config) True, empty_world)
   \<and> snd (uploadToR2 example_env (example_processor 1024 102400 (Some example_r2Config) True)
        empty_world (example_info ''77.png'' (Some ''000077''))) \<noteq> empty_world"
proof -
  let ?P = "example_processor 1024 102400 (Some example_r2Config) True"
  let ?b = "example_info ''77.png'' (Some ''77'')"
  have sb: "isSupported ?b" "truthy (code ?b)" "isValidSize ?b"
    by (simp_all add: ex_defs)
  have fm: "first_match ?b (banks ?P) 1" by (simp add: ex_defs)
  have 1: "processImage example_env ?P empty_world ?b =
       (Inr (Some ''https://cdn/logo/default-image''), example_info ''77.png'' (Some ''000077''),
        ?P, empty_world)"
    unfolding processImage_matched [OF sb fm, of example_env empty_world]
    by (simp add: ex_defs)
  have 2: "isCI ?P" by (simp add: ex_defs)
  have 3: "icon (banks ?P ! 1) = Some ''https://cdn/logo/default-image''" by (simp add: ex_defs)
  have 4: "includes_str ''https://cdn/logo/default-image'' ''default-image''" by simp
  have 5: "snd (uploadToR2 example_env ?P empty_world (example_info ''77.png'' (Some ''000077'')))
      \<noteq> empty_world"
    by (rule uploadToR2_changes_world)
  from 2 fm 3 4 1 5 show ?thesis by (intro conjI)
qed

subsection \<open>C6: CI mode\<close>

text \<open>
  C6. In CI mode, for a supported descriptor with a code and a valid size whose first
  matching record is at index \<open>k\<close>, \<^verbatim>\<open>processImage\<close> returns the icon that record
  has, the processor (and so every field of every record) is unchanged, no event is
  recorded, and the console holds at most the note that the record already has an
  icon: the upload gateway is not called.
\<close>

theorem ci_short_circuit:
  assumes "isCI this" "isSupported info" "truthy (code info)" "isValidSize info"
    and "first_match info (banks this) k"
  shows "case processImage E this w info of
           (r, info', this', w') \<Rightarrow>
             r = Inr (icon (banks this ! k)) \<and> this' = this \<and> effects w' = effects w
             \<and> (w' = w
                \<or> w' = emit console_info
                     (sign_info @ ''  '' @ bank_name (banks this ! k) @ '' already has an icon'') w)"
  unfolding processImage_matched [OF assms(2-5), of E w]
  using assms(1) by (simp add: Let_def)

theorem ci_short_circuit_witness:
  "isCI (example_processor 1024 102400 None True)
   \<and> first_match (example_info ''77.png'' (Some ''77''))
      (banks (example_processor 1024 102400 None True)) 1
   \<and> fst (processImage example_env (example_processor 1024 102400 None True)
        empty_world (example_info ''77.png'' (Some ''77''))) =
       Inr (Some ''https://cdn/logo/default-image'')
   \<and> fst (snd (snd (processImage example_env (example_processor 1024 102400 None True)
        empty_world (example_info ''77.png'' (Some ''77''))))) =
       example_processor 1024 102400 None True
   \<and> effects (snd (snd (snd (processImage example_env (example_processor 1024 102400 None True)
        empty_world (example_info ''77.png'' (Some ''77'')))))) = []"
proof -
  let ?P = "example_processor 1024 102400 None True"
  let ?b = "example_info ''77.png'' (Some ''77'')"
  have sb: "isSupported ?b" "truthy (code ?b)" "isValidSize ?b"
    by (simp_all add: ex_defs)
  have fm: "first_match ?b (banks ?P) 1" by (simp add: ex_defs)
  have ci: "isCI ?P" by (simp add: ex_defs)
  have ic: "icon (banks ?P ! 1) = Some ''https://cdn/logo/default-image''" by (simp add: ex_defs)
  note t = ci_short_circuit [OF ci sb fm, where E = example_env and w = empty_world]
  obtain r i' p' w' where e: "processImage example_env ?P empty_world ?b = (r, i', p', w')"
    by (cases "processImage example_env ?P empty_world ?b")
  from t e ic have "r = Inr (Some ''https://cdn/logo/default-image'')" "p' = ?P"
    "effects w' = []"
    by (simp_all add: empty_world_def)
  with ci fm e show ?thesis by simp
qed

subsection \<open>C7: the registry in the clean-up\<close>

text \<open>
  C7. The claim: \<^verbatim>\<open>cleanup\<close> writes the records, with the placeholder icon for those
  that have none, to durable storage before it deletes files. The code builds that
  list and reports "Updated", but the call of \<^verbatim>\<open>fs.writeFile\<close> is commented out:
  the events of \<^verbatim>\<open>cleanup\<close> are the deletions and nothing else. For the processor
  of the examples, whose third record has no icon, the list built in memory holds the
  placeholder for it, the store still holds no icon, and cleaning up after
  \<^verbatim>\<open>10.jpg\<close> records the one deletion and no write.
\<close>

theorem cleanup_writes_nothing:
  "effects (snd (cleanup E this w completedImages)) =
     effects w @ map Unlink (deletion_targets E completedImages)
   \<and> updatedBanks_of (example_processor 1024 102400 (Some example_r2Config) False) ! 2 =
     \<lparr>bank_code = ''077'', nipBankCode = ''77'', bank_name = ''Seven again'',
      icon = Some ''https://cdn/logo/default-image''\<rparr>
   \<and> banks (example_processor 1024 102400 (Some example_r2Config) False) ! 2 =
     \<lparr>bank_code = ''077'', nipBankCode = ''77'', bank_name = ''Seven again'', icon = None\<rparr>
   \<and> fst (cleanup example_env (example_processor 1024 102400 (Some example_r2Config) False)
          empty_world [''10.jpg'']) = None
   \<and> effects (snd (cleanup example_env (example_processor 1024 102400 (Some example_r2Config) False)
          empty_world [''10.jpg''])) = [Unlink ''/repo/_data/images/10.jpg'']
   \<and> effects (snd (cleanup example_env (example_processor 1024 102400 (Some example_r2Config) False)
          empty_world [])) = []"
proof -
  let ?P = "example_processor 1024 102400 (Some example_r2Config) False"
  have ew: "effects empty_world = []" by (simp add: empty_world_def)
  obtain r w' where c: "cleanup example_env ?P empty_world [''10.jpg''] = (r, w')"
    by (cases "cleanup example_env ?P empty_world [''10.jpg'']")
  have f: "unlink_failures example_env [] [''/repo/_data/images/10.jpg''] = 0"
    by (simp add: example_env_def)
  from cleanup_result [OF c] have "effects w' = [Unlink ''/repo/_data/images/10.jpg'']" "r = None"
    unfolding ew example_targets_one f by simp_all
  moreover have "updatedBanks_of ?P ! 2 =
     \<lparr>bank_code = ''077'', nipBankCode = ''77'', bank_name = ''Seven again'',
      icon = Some ''https://cdn/logo/default-image''\<rparr>"
    by (simp add: updatedBanks_of_def ex_defs example_r2Config_def text_of_def)
  moreover have "banks ?P ! 2 =
     \<lparr>bank_code = ''077'', nipBankCode = ''77'', bank_name = ''Seven again'', icon = None\<rparr>"
    by (simp add: ex_defs)
  moreover have "effects (snd (cleanup example_env ?P empty_world [])) = []"
    by (simp add: cleanup_empty ew)
  moreover have "effects (snd (cleanup E this w completedImages)) =
     effects w @ map Unlink (deletion_targets E completedImages)"
    using cleanup_result [of E this w completedImages "fst (cleanup E this w completedImages)"
      "snd (cleanup E this w completedImages)"] by simp
  ultimately show ?thesis by (simp add: c)
qed

subsection \<open>C8: deletions in the clean-up\<close>

text \<open>
  C8. \<^verbatim>\<open>cleanup\<close> asks the file system to delete the file of every completed image,
  in order, whatever the answers to the earlier deletions were. It returns an error
  exactly when at least one deletion was refused, and the error's message gives the
  number of refusals out of the number of completed images. With no completed image
  it returns no error, deletes nothing and says so on the console.
\<close>

theorem cleanup_deletions:
  "case cleanup E this w completedImages of
     (r, w') \<Rightarrow>
       effects w' = effects w @ map Unlink (deletion_targets E completedImages)
       \<and> (r \<noteq> None) =
           (\<exists>i<length completedImages.
              fs_unlink E
                (effects w @ map Unlink (take i (deletion_targets E completedImages)))
                (deletion_targets E completedImages ! i) \<noteq> None)
       \<and> r = (if 0 < unlink_failures E (effects w) (deletion_targets E completedImages)
              then Some (JsError Error
                (''Failed to delete '' @
                 dec_nat (unlink_failures E (effects w) (deletion_targets E completedImages)) @
                 '' out of '' @ dec_nat (length completedImages) @ '' files''))
              else None)
       \<and> (completedImages = [] \<longrightarrow>
            r = None \<and> effects w' = effects w
            \<and> last (console w') = (console_log, sign_info @ ''  No images to delete''))"
proof -
  obtain r w' where c: "cleanup E this w completedImages = (r, w')"
    by (cases "cleanup E this w completedImages")
  note res = cleanup_result [OF c]
  from res have e: "effects w' = effects w @ map Unlink (deletion_targets E completedImages)"
    by simp
  from res have r: "r = (if 0 < unlink_failures E (effects w) (deletion_targets E completedImages)
              then Some (JsError Error
                (''Failed to delete '' @
                 dec_nat (unlink_failures E (effects w) (deletion_targets E completedImages)) @
                 '' out of '' @ dec_nat (length completedImages) @ '' files''))
              else None)"
    by simp
  have len: "length (deletion_targets E completedImages) = length completedImages"
    by (simp add: deletion_targets_def)
  from r have "(r \<noteq> None) = (0 < unlink_failures E (effects w) (deletion_targets E completedImages))"
    by simp
  then have x: "(r \<noteq> None) =
           (\<exists>i<length completedImages.
              fs_unlink E
                (effects w @ map Unlink (take i (deletion_targets E completedImages)))
                (deletion_targets E completedImages ! i) \<noteq> None)"
    by (simp only: unlink_failures_pos len)
  have n: "completedImages = [] \<longrightarrow>
            r = None \<and> effects w' = effects w
            \<and> last (console w') = (console_log, sign_info @ ''  No images to delete'')"
    using c by (auto simp add: cleanup_empty)
  from e x r n show ?thesis unfolding c by simp
qed

theorem cleanup_deletions_witness:
  "fst (cleanup example_env (example_processor 1024 102400 (Some example_r2Config) False)
          empty_world [''10.jpg'', ''20.png'']) =
     Some (JsError Error ''Failed to delete 1 out of 2 files'')
   \<and> effects (snd (cleanup example_env (example_processor 1024 102400 (Some example_r2Config) False)
          empty_world [''10.jpg'', ''20.png''])) =
     [Unlink ''/repo/_data/images/10.jpg'', Unlink ''/repo/_data/images/20.png'']
   \<and> fst (cleanup example_env (example_processor 1024 102400 (Some example_r2Config) False)
          empty_world []) = None
   \<and> effects (snd (cleanup example_env (example_processor 1024 102400 (Some example_r2Config) False)
          empty_world [])) = []"
proof -
  let ?P = "example_processor 1024 102400 (Some example_r2Config) False"
  note a = cleanup_deletions [where E = example_env and this = ?P and w = empty_world
      and completedImages = "[''10.jpg'', ''20.png'']"]
  note b = cleanup_deletions [where E = example_env and this = ?P and w = empty_world
      and completedImages = "[]"]
  obtain r w' where c: "cleanup example_env ?P empty_world [''10.jpg'', ''20.png''] = (r, w')"
    by (cases "cleanup example_env ?P empty_world [''10.jpg'', ''20.png'']")
  obtain r0 w0 where c0: "cleanup example_env ?P empty_world [] = (r0, w0)"
    by (cases "cleanup example_env ?P empty_world []")
  have ew: "effects empty_world = []" by (simp add: empty_world_def)
  note a1 = a [unfolded c prod.case, THEN conjunct1]
  note a3 = a [unfolded c prod.case, THEN conjunct2, THEN conjunct2, THEN conjunct1]
  note b1 = b [unfolded c0 prod.case, THEN conjunct1]
  note b4 = b [unfolded c0 prod.case, THEN conjunct2, THEN conjunct2, THEN conjunct2, THEN mp, OF refl]
  have "r = Some (JsError Error ''Failed to delete 1 out of 2 files'')"
    using a3 unfolding ew example_targets example_failures by (simp add: dec_nat_small)
  moreover have
    "effects w' = [Unlink ''/repo/_data/images/10.jpg'', Unlink ''/repo/_data/images/20.png'']"
    using a1 unfolding ew example_targets by simp
  moreover from b4 have "r0 = None" by simp
  moreover from b4 have "effects w0 = []" by (simp add: ew)
  ultimately show ?thesis by (simp add: c c0)
qed

subsection \<open>C9: the unconfigured gateway\<close>

text \<open>
  C9. When the processor has no storage client or no storage configuration, every
  call of \<^verbatim>\<open>uploadToR2\<close> returns the error "R2 client not configured" and records
  no event. A descriptor that reaches the upload step then gets a
  \<^verbatim>\<open>FailedUploadError\<close> with that message from \<^verbatim>\<open>processImage\<close>, and the loop of
  \<^verbatim>\<open>processDirectory\<close> appends the file's name to \<^verbatim>\<open>failed_upload\<close> and goes on
  with the remaining paths.
\<close>

theorem unconfigured_gateway:
  assumes "s3Client this = None \<or> r2Config this = None"
  shows
   "uploadToR2 E this w info =
      (Inl (JsError Error ''R2 client not configured''),
       emit console_error ''R2 client not configured'' w)
    \<and> effects (snd (uploadToR2 E this w info)) = effects w
    \<and> (isSupported info \<and> truthy (code info) \<and> isValidSize info
         \<and> first_match info (banks this) k
         \<and> (includes_str (the (icon (banks this ! k))) ''default-image''
              \<or> \<not> truthy (icon (banks this ! k)))
         \<and> \<not> isCI this \<longrightarrow>
        processImage E this w info =
          (Inl (JsError FailedUploadError ''R2 client not configured''),
           info\<lparr>code := Some (nipBankCode (banks this ! k))\<rparr>, this,
           emit console_error ''R2 client not configured''
             (emit console_error ''R2 client not configured'' w))
        \<and> (getImageInfo E this w0 imagePath = (Some info, w1) \<longrightarrow>
             process_files E verbose (imagePath # rest) (res, n, report, this, w0) =
               process_files E verbose rest
                 (res @ [info\<lparr>code := Some (nipBankCode (banks this ! k))\<rparr>], n,
                  report\<lparr>failed_upload := failed_upload report @ [name info]\<rparr>, this,
                  emit console_error ''R2 client not configured''
                    (emit console_error ''R2 client not configured''
                       (if verbose then logImageInfo info w1 else w1)))))"
proof -
  have u: "\<And>w i. uploadToR2 E this w i =
      (Inl (JsError Error ''R2 client not configured''),
       emit console_error ''R2 client not configured'' w)"
    using assms by (rule uploadToR2_unconfigured)
  have p: "\<And>w. isSupported info \<and> truthy (code info) \<and> isValidSize info
         \<and> first_match info (banks this) k
         \<and> (includes_str (the (icon (banks this ! k))) ''default-image''
              \<or> \<not> truthy (icon (banks this ! k)))
         \<and> \<not> isCI this \<Longrightarrow>
        processImage E this w info =
          (Inl (JsError FailedUploadError ''R2 client not configured''),
           info\<lparr>code := Some (nipBankCode (banks this ! k))\<rparr>, this,
           emit console_error ''R2 client not configured''
             (emit console_error ''R2 client not configured'' w))"
  proof -
    fix w
    assume a: "isSupported info \<and> truthy (code info) \<and> isValidSize info
         \<and> first_match info (banks this) k
         \<and> (includes_str (the (icon (banks this ! k))) ''default-image''
              \<or> \<not> truthy (icon (banks this ! k)))
         \<and> \<not> isCI this"
    then have h: "isSupported info" "truthy (code info)" "isValidSize info"
      "first_match info (banks this) k" by simp_all
    from a show "processImage E this w info =
          (Inl (JsError FailedUploadError ''R2 client not configured''),
           info\<lparr>code := Some (nipBankCode (banks this ! k))\<rparr>, this,
           emit console_error ''R2 client not configured''
             (emit console_error ''R2 client not configured'' w))"
      unfolding processImage_matched [OF h, of E w] by (auto simp add: Let_def u)
  qed
  have l: "isSupported info \<and> truthy (code info) \<and> isValidSize info
         \<and> first_match info (banks this) k
         \<and> (includes_str (the (icon (banks this ! k))) ''default-image''
              \<or> \<not> truthy (icon (banks this ! k)))
         \<and> \<not> isCI this \<Longrightarrow> getImageInfo E this w0 imagePath = (Some info, w1) \<Longrightarrow>
             process_files E verbose (imagePath # rest) (res, n, report, this, w0) =
               process_files E verbose rest
                 (res @ [info\<lparr>code := Some (nipBankCode (banks this ! k))\<rparr>], n,
                  report\<lparr>failed_upload := failed_upload report @ [name info]\<rparr>, this,
                  emit console_error ''R2 client not configured''
                    (emit console_error ''R2 client not configured''
                       (if verbose then logImageInfo info w1 else w1)))"
    by (simp add: process_file_def p)
  from u [of w info] p [of w] l show ?thesis by simp
qed

theorem unconfigured_gateway_witness:
  "s3Client (example_processor 1024 102400 None False) = None
   \<and> uploadToR2 example_env (example_processor 1024 102400 None False) empty_world
        (example_info ''77.png'' (Some ''000077'')) =
       (Inl (JsError Error ''R2 client not configured''),
        emit console_error ''R2 client not configured'' empty_world)
   \<and> process_files example_env False [''_data/images/77.png'']
        ([], 0, \<lparr>skipped = [], failed_upload = [], completed = []\<rparr>,
         example_processor 1024 102400 None False, empty_world) =
       ([example_info ''77.png'' (Some ''000077'')], 0,
        \<lparr>skipped = [], failed_upload = [''77.png''], completed = []\<rparr>,
        example_processor 1024 102400 None False,
        emit console_error ''R2 client not configured''
          (emit console_error ''R2 client not configured''
             (perform (Stat ''_data/images/77.png'') empty_world)))"
proof -
  let ?P = "example_processor 1024 102400 None False"
  let ?b = "example_info ''77.png'' (Some ''77'')"
  have un: "s3Client ?P = None \<or> r2Config ?P = None" by (simp add: ex_defs)
  have g: "getImageInfo example_env ?P empty_world ''_data/images/77.png'' =
      (Some ?b, perform (Stat ''_data/images/77.png'') empty_world)"
    using example_getImageInfo [of 1024 102400 None False empty_world]
    by (simp add: example_info_def)
  have h: "isSupported ?b \<and> truthy (code ?b) \<and> isValidSize ?b
         \<and> first_match ?b (banks ?P) 1
         \<and> (includes_str (the (icon (banks ?P ! 1))) ''default-image''
              \<or> \<not> truthy (icon (banks ?P ! 1)))
         \<and> \<not> isCI ?P"
    by (simp add: ex_defs)
  note t = unconfigured_gateway [OF un, where E = example_env and w = empty_world
      and info = ?b and k = 1 and ?w0.0 = empty_world and imagePath = "''_data/images/77.png''"
      and ?w1.0 = "perform (Stat ''_data/images/77.png'') empty_world" and verbose = False
      and rest = "[]" and res = "[]" and n = 0
      and report = "\<lparr>skipped = [], failed_upload = [], completed = []\<rparr>"]
  note t1 = unconfigured_gateway [OF un, where E = example_env and w = empty_world
      and info = "example_info ''77.png'' (Some ''000077'')", THEN conjunct1]
  note t3 = t [THEN conjunct2, THEN conjunct2, THEN mp, OF h, THEN conjunct2, THEN mp, OF g]
  have 3: "process_files example_env False [''_data/images/77.png'']
        ([], 0, \<lparr>skipped = [], failed_upload = [], completed = []\<rparr>, ?P, empty_world) =
       ([example_info ''77.png'' (Some ''000077'')], 0,
        \<lparr>skipped = [], failed_upload = [''77.png''], completed = []\<rparr>, ?P,
        emit console_error ''R2 client not configured''
          (emit console_error ''R2 client not configured''
             (perform (Stat ''_data/images/77.png'') empty_world)))"
    unfolding t3 by (simp add: ex_defs)
  have 1: "s3Client ?P = None" by (simp add: ex_defs)
  from 1 t1 3 show ?thesis by (intro conjI)
qed

subsection \<open>C10: scanned files have a supported format\<close>

text \<open>
  C10. When the directory listing holds file names only (no slash, not empty, not
  \<^verbatim>\<open>.\<close> or \<^verbatim>\<open>..\<close>), every path that \<^verbatim>\<open>getAllImageFiles\<close> returns has a
  lower-cased extension in the allow-list: joining the directory and the name does
  not change the extension. So every descriptor that \<^verbatim>\<open>getImageInfo\<close> builds for such
  a path, under the same allow-list, has \<^verbatim>\<open>isSupported\<close> set, \<^verbatim>\<open>processImage\<close> never
  answers it with the unsupported-format error, and every descriptor that the loop of
  \<^verbatim>\<open>processDirectory\<close> collects from the scanned paths has \<^verbatim>\<open>isSupported\<close> set.
\<close>

theorem scanned_files_supported:
  assumes "well_formed_listing E w directory"
    and "getAllImageFiles E this w directory report = (imageFiles, report', w')"
    and "imagePath \<in> set imageFiles"
  shows "toLowerCase E (extname imagePath) \<in> set (supportedFormats this)
    \<and> (supportedFormats this2 = supportedFormats this
         \<and> getImageInfo E this2 w2 imagePath = (Some info, w3) \<longrightarrow>
       isSupported info
       \<and> fst (processImage E this3 w4 info) \<noteq>
           Inl (JsError ImageValidationError
             (sign_warning @ ''  Unsupported format: '' @ type info)))
    \<and> list_all isSupported
        (fst (process_files E verbose imageFiles ([], 0, report', this, w5)))"
proof -
  from getAllImageFiles_supported [OF assms(1,2)] have
    all: "list_all (\<lambda>p. toLowerCase E (extname p) \<in> set (supportedFormats this)) imageFiles" .
  with assms(3) have 1: "toLowerCase E (extname imagePath) \<in> set (supportedFormats this)"
    by (simp add: list_all_iff)
  have 2: "supportedFormats this2 = supportedFormats this
         \<and> getImageInfo E this2 w2 imagePath = (Some info, w3) \<longrightarrow>
       isSupported info
       \<and> fst (processImage E this3 w4 info) \<noteq>
           Inl (JsError ImageValidationError
             (sign_warning @ ''  Unsupported format: '' @ type info))"
  proof (intro impI)
    assume a: "supportedFormats this2 = supportedFormats this
         \<and> getImageInfo E this2 w2 imagePath = (Some info, w3)"
    then have g: "getImageInfo E this2 w2 imagePath = (Some info, w3)" by simp
    from getImageInfo_SomeD [OF g] a 1 have s: "isSupported info" by auto
    with processImage_supported [OF s] show "isSupported info
       \<and> fst (processImage E this3 w4 info) \<noteq>
           Inl (JsError ImageValidationError
             (sign_warning @ ''  Unsupported format: '' @ type info))"
      by simp
  qed
  obtain res n rep thisL wL where
    l: "process_files E verbose imageFiles ([], 0, report', this, w5) = (res, n, rep, thisL, wL)"
    by (cases "process_files E verbose imageFiles ([], 0, report', this, w5)")
  from process_files_supported [OF l all] have "list_all isSupported res" by simp
  with l have 3: "list_all isSupported
        (fst (process_files E verbose imageFiles ([], 0, report', this, w5)))" by simp
  from 1 2 3 show ?thesis by (intro conjI)
qed

theorem scanned_files_supported_witness:
  "well_formed_listing example_env empty_world ''./_data/images''
   \<and> fst (getAllImageFiles example_env
      (example_processor 1024 102400 (Some example_r2Config) False) empty_world
      ''./_data/images'' \<lparr>skipped = [], failed_upload = [], completed = []\<rparr>) =
     [''_data/images/10.JPG'', ''_data/images/logo-a.png'', ''_data/images/77.png'']
   \<and> ''.jpg'' \<in> set (supportedFormats (example_processor 1024 102400 (Some example_r2Config) False))"
proof -
  let ?P = "example_processor 1024 102400 (Some example_r2Config) False"
  let ?G = "getAllImageFiles example_env ?P empty_world ''./_data/images''
      \<lparr>skipped = [], failed_upload = [], completed = []\<rparr>"
  obtain fs rep w' where g: "?G = (fs, rep, w')" by (cases ?G)
  with example_files have f: "fs = [''_data/images/10.JPG'', ''_data/images/logo-a.png'', ''_data/images/77.png'']"
    by simp
  then have m: "''_data/images/10.JPG'' \<in> set fs" by simp
  note t = scanned_files_supported [OF example_listing g m, THEN conjunct1]
  from t have "''.jpg'' \<in> set (supportedFormats ?P)" by (simp only: example_ext)
  with example_listing example_files show ?thesis by (intro conjI)
qed

end
